theory Spec2Isabelle
  imports
    Main
    "HOL-Library.Multiset"
    "HOL-Library.Char_ord"
    "HOL-Library.List_Lexorder"
    "HOL-Library.Product_Lexorder"
begin

section \<open>The Slack connector of the connectors service\<close>

text \<open>
  This theory embeds \<^verbatim>\<open>connectors/src/connectors/slack/index.ts\<close> and the two
  bot-flag functions of \<^verbatim>\<open>connectors/src/connectors/slack/bot.ts\<close>. The Sequelize
  models, the Nango client, the Slack web client and the Temporal client are imported by
  these files from modules outside the translated sources; their tables are modelled as
  lists of rows and their calls as functions of a record \<open>services\<close> that the operations
  take as a parameter. Every database access, log line, external call and workflow launch
  of an operation is written, in program order, to the trace it returns.
\<close>

subsection \<open>Data model\<close>

text \<open>\<^verbatim>\<open>ConnectorPermission\<close>: the strings "read", "write", "read_write" and "none".\<close>

datatype ConnectorPermission = PRead | PWrite | PReadWrite | PNone

type_synonym ModelId = nat

record Connector =
  c_id :: ModelId
  c_type :: string
  c_connectionId :: string
  c_workspaceAPIKey :: string
  c_workspaceId :: string
  c_dataSourceName :: string
  c_defaultNewResourcePermission :: ConnectorPermission

record SlackConfiguration =
  sc_id :: ModelId
  sc_slackTeamId :: string
  sc_connectorId :: ModelId
  sc_botEnabled :: bool

record SlackChannel =
  ch_id :: ModelId
  ch_connectorId :: ModelId
  ch_slackChannelId :: string
  ch_slackChannelName :: string
  ch_permission :: ConnectorPermission
  ch_createdAt :: int

record SlackMessages =
  m_id :: ModelId
  m_connectorId :: ModelId
  m_channelId :: string
  m_messageTs :: string

text \<open>
  The database: one list of rows per table, in the order in which an unordered query
  returns them, and the next primary key of the two tables the connector creates rows in.
\<close>

record db =
  connectors :: "Connector list"
  slackConfigurations :: "SlackConfiguration list"
  slackChannels :: "SlackChannel list"
  slackMessages :: "SlackMessages list"
  nextConnectorId :: ModelId
  nextSlackConfigurationId :: ModelId

datatype table = ConnectorT | SlackConfigurationT | SlackChannelT | SlackMessagesT

text \<open>
  The \<^verbatim>\<open>transaction\<close> option of a query: none, the transaction the caller handed
  to the function, or the one the function opened with \<^verbatim>\<open>sequelize_conn.transaction\<close>.
\<close>

datatype txn = NoTransaction | CallerTransaction | OwnTransaction

datatype event =
    Begin
  | Commit
  | Rollback
  | DbRead table txn
  | DbCreate table ModelId txn
  | DbUpdate table ModelId txn
  | DbDestroy table ModelId txn
  | LogError string
  | LogChannelNotFound ModelId string
  | LogInfo string
  | NangoGetToken string
  | GetAccessToken string
  | SlackTeamInfo string
  | NangoGetConnection string
  | SlackAppsUninstall string
  | NangoDeleteConnection string
  | LaunchSlackSyncWorkflow ModelId
  | LaunchSlackBotJoinedWorkflow ModelId string
  | LaunchSlackGarbageCollectWorkflow ModelId

text \<open>
  Errors as values. \<open>Error\<close> is \<^verbatim>\<open>new Err(new Error(msg))\<close>, \<open>Thrown\<close> a
  \<^verbatim>\<open>throw new Error(msg)\<close>, \<open>APIError\<close> the \<^verbatim>\<open>ConnectorsAPIErrorResponse\<close>
  with its type and message, \<open>External\<close> an error handed back by an external service
  and \<open>TypeError\<close> the exception of the JavaScript runtime.
\<close>

datatype error =
    Error string
  | Thrown string
  | APIError string string
  | External string
  | TypeError string

record 'a outcome =
  result :: "error + 'a"
  store :: db
  trace :: "event list"

subsection \<open>JavaScript truthiness\<close>

text \<open>
  \<^verbatim>\<open>if (s)\<close> and \<^verbatim>\<open>!s\<close> on a value of type \<^verbatim>\<open>string | null | undefined\<close>:
  null, undefined and the empty string are falsy.
\<close>

definition truthy :: "string option \<Rightarrow> bool" where
  "truthy v = (case v of None \<Rightarrow> False | Some s \<Rightarrow> s \<noteq> [])"

text \<open>The value a truthy test lets through: \<open>None\<close> for a falsy one.\<close>

definition truthyValue :: "string option \<Rightarrow> string option" where
  "truthyValue v = (case v of None \<Rightarrow> None | Some s \<Rightarrow> if s = [] then None else Some s)"

subsection \<open>bot.ts: the bot-enabled flag\<close>

definition findConfiguration :: "db \<Rightarrow> ModelId \<Rightarrow> SlackConfiguration option" where
  "findConfiguration d connectorId =
     find (\<lambda>r. sc_connectorId r = connectorId) (slackConfigurations d)"

definition getBotEnabled :: "db \<Rightarrow> ModelId \<Rightarrow> bool outcome" where
  "getBotEnabled d connectorId =
     (case findConfiguration d connectorId of
        None \<Rightarrow>
          \<lparr>result = Inl (Error ''Failed to find a Slack configuration for connector''),
           store = d, trace = [DbRead SlackConfigurationT NoTransaction]\<rparr>
      | Some slackConfig \<Rightarrow>
          \<lparr>result = Inr (sc_botEnabled slackConfig),
           store = d, trace = [DbRead SlackConfigurationT NoTransaction]\<rparr>)"

text \<open>\<^verbatim>\<open>slackConfig.save()\<close> writes the instance back to the row with its primary key.\<close>

definition saveBotEnabled :: "ModelId \<Rightarrow> bool \<Rightarrow> SlackConfiguration list \<Rightarrow> SlackConfiguration list" where
  "saveBotEnabled pk b rows = map (\<lambda>r. if sc_id r = pk then r\<lparr>sc_botEnabled := b\<rparr> else r) rows"

definition toggleSlackbot :: "db \<Rightarrow> ModelId \<Rightarrow> bool \<Rightarrow> unit outcome" where
  "toggleSlackbot d connectorId botEnabled =
     (case findConfiguration d connectorId of
        None \<Rightarrow>
          \<lparr>result = Inl (Error ''Failed to find a Slack configuration for connector''),
           store = d, trace = [DbRead SlackConfigurationT NoTransaction]\<rparr>
      | Some slackConfig \<Rightarrow>
          \<lparr>result = Inr (),
           store = d\<lparr>slackConfigurations :=
                      saveBotEnabled (sc_id slackConfig) botEnabled (slackConfigurations d)\<rparr>,
           trace = [DbRead SlackConfigurationT NoTransaction,
                    DbUpdate SlackConfigurationT (sc_id slackConfig) NoTransaction]\<rparr>)"

subsection \<open>External services\<close>

text \<open>
  What the modules outside the translated sources answer. The three environment variables
  are read once from \<^verbatim>\<open>process.env\<close>. A call is taken to return; the failures that
  are modelled are the ones the code tests for (an \<^verbatim>\<open>ok\<close> flag, a missing field, a
  \<^verbatim>\<open>Result\<close> that is an \<^verbatim>\<open>Err\<close>). \<open>ti_teamId\<close> is \<^verbatim>\<open>teamInfo.team?.id\<close>,
  \<open>nangoGetConnectionTeamId\<close> is \<^verbatim>\<open>newConnectionRes?.team?.id\<close>.

  The last two fields are the timing of the database and of the workflow service when a
  queued task of \<open>setSlackConnectorPermissions\<close> rejects: the function then returns while
  other tasks are pending. \<open>rejectsFirst\<close> picks the rejection that \<^verbatim>\<open>Promise.all\<close>
  sees first, as an index into the rejections in the order of the entries, taken modulo
  their number; \<open>landedAtReturn\<close> says of a channel id whether the write of its task has
  reached the database when the function returns.
\<close>

record TeamInfo =
  ti_ok :: bool
  ti_error :: "string option"
  ti_teamId :: "string option"

record UninstallResponse =
  un_ok :: bool
  un_error :: "string option"

record services =
  NANGO_SLACK_CONNECTOR_ID :: "string option"
  SLACK_CLIENT_ID :: "string option"
  SLACK_CLIENT_SECRET :: "string option"
  nangoGetToken :: "string \<Rightarrow> string"
  slackTeamInfo :: "string \<Rightarrow> TeamInfo"
  nangoGetConnectionTeamId :: "string \<Rightarrow> string option"
  getAccessToken :: "string \<Rightarrow> string"
  slackAppsUninstall :: "string \<Rightarrow> UninstallResponse"
  nangoDeleteConnection :: "string \<Rightarrow> error option"
  launchSlackSyncWorkflow :: "ModelId \<Rightarrow> error option"
  launchSlackBotJoinedWorkflow :: "ModelId \<Rightarrow> string \<Rightarrow> error option"
  launchSlackGarbageCollectWorkflow :: "ModelId \<Rightarrow> error option"
  rejectsFirst :: nat
  landedAtReturn :: "string \<Rightarrow> bool"

definition findConnector :: "db \<Rightarrow> ModelId \<Rightarrow> Connector option" where
  "findConnector d connectorId = find (\<lambda>r. c_id r = connectorId) (connectors d)"

subsection \<open>index.ts: createSlackConnector\<close>

record DataSourceConfig =
  workspaceAPIKey :: string
  workspaceId :: string
  dataSourceName :: string

text \<open>\<^verbatim>\<open>teamInfo.error || "unknown"\<close>\<close>

definition orUnknown :: "string option \<Rightarrow> string" where
  "orUnknown e = (case truthyValue e of None \<Rightarrow> ''unknown'' | Some s \<Rightarrow> s)"

text \<open>
  The callback of \<^verbatim>\<open>sequelize_conn.transaction\<close> commits when it returns, also when it
  returns an \<^verbatim>\<open>Err\<close>, and rolls back when it throws. The workflow is launched after the
  transaction. The function returns the identifier of the new connector.
\<close>

definition createSlackConnector ::
  "services \<Rightarrow> db \<Rightarrow> DataSourceConfig \<Rightarrow> string \<Rightarrow> ModelId outcome" where
  "createSlackConnector sv d dataSourceConfig connectionId =
     (if \<not> truthy (NANGO_SLACK_CONNECTOR_ID sv) then
        \<lparr>result = Inl (Thrown ''NANGO_SLACK_CONNECTOR_ID is not defined''),
         store = d, trace = [Begin, Rollback]\<rparr>
      else
        let slackAccessToken = nangoGetToken sv connectionId;
            teamInfo = slackTeamInfo sv slackAccessToken;
            calls = [Begin, NangoGetToken connectionId, SlackTeamInfo slackAccessToken]
        in
        if \<not> ti_ok teamInfo then
          \<lparr>result = Inl (Error (''Could not get slack team info. Error message: ''
                                  @ orUnknown (ti_error teamInfo))),
           store = d, trace = calls @ [Commit]\<rparr>
        else
          (case truthyValue (ti_teamId teamInfo) of
             None \<Rightarrow>
               \<lparr>result = Inl (Error (''Could not get slack team id. Error message: ''
                                       @ orUnknown (ti_error teamInfo))),
                store = d, trace = calls @ [Commit]\<rparr>
           | Some teamId \<Rightarrow>
               let connector =
                     \<lparr>c_id = nextConnectorId d,
                      c_type = ''slack'',
                      c_connectionId = connectionId,
                      c_workspaceAPIKey = workspaceAPIKey dataSourceConfig,
                      c_workspaceId = workspaceId dataSourceConfig,
                      c_dataSourceName = dataSourceName dataSourceConfig,
                      c_defaultNewResourcePermission = PReadWrite\<rparr>;
                   configuration =
                     \<lparr>sc_id = nextSlackConfigurationId d,
                      sc_slackTeamId = teamId,
                      sc_connectorId = c_id connector,
                      sc_botEnabled = False\<rparr>;
                   d' = d\<lparr>connectors := connectors d @ [connector],
                          slackConfigurations := slackConfigurations d @ [configuration],
                          nextConnectorId := Suc (nextConnectorId d),
                          nextSlackConfigurationId := Suc (nextSlackConfigurationId d)\<rparr>;
                   created = calls @
                     [DbCreate ConnectorT (c_id connector) OwnTransaction,
                      DbCreate SlackConfigurationT (sc_id configuration) OwnTransaction,
                      Commit,
                      LaunchSlackSyncWorkflow (c_id connector)]
               in (case launchSlackSyncWorkflow sv (c_id connector) of
                     Some e \<Rightarrow> \<lparr>result = Inl e, store = d', trace = created\<rparr>
                   | None \<Rightarrow> \<lparr>result = Inr (c_id connector), store = d', trace = created\<rparr>)))"

subsection \<open>index.ts: updateSlackConnector\<close>



subsection \<open>index.ts: cleanupSlackConnector\<close>

text \<open>
  The branch \<^verbatim>\<open>configurations.length == 1\<close>: the Slack app is uninstalled and the Nango
  connection deleted. The value is the error the function returns with, if any, and the
  calls made.
\<close>

text \<open>A value of type \<^verbatim>\<open>string | undefined\<close> in a template literal.\<close>

definition templated :: "string option \<Rightarrow> string" where
  "templated v = (case v of None \<Rightarrow> ''undefined'' | Some s \<Rightarrow> s)"

definition deactivateSlackApp :: "services \<Rightarrow> Connector \<Rightarrow> error option \<times> event list" where
  "deactivateSlackApp sv connector =
     (if \<not> truthy (NANGO_SLACK_CONNECTOR_ID sv) then
        (Some (Error ''NANGO_SLACK_CONNECTOR_ID is not defined''), [])
      else if \<not> truthy (SLACK_CLIENT_ID sv) then
        (Some (Error ''SLACK_CLIENT_ID is not defined''), [])
      else if \<not> truthy (SLACK_CLIENT_SECRET sv) then
        (Some (Error ''SLACK_CLIENT_SECRET is not defined''), [])
      else
        let accessToken = getAccessToken sv (c_connectionId connector);
            deleteRes = slackAppsUninstall sv accessToken
        in
        if \<not> un_ok deleteRes then
          (Some (Error (''Could not uninstall the Slack app from the user's workspace. Error: ''
                          @ templated (un_error deleteRes))),
           [GetAccessToken (c_connectionId connector), SlackAppsUninstall accessToken])
        else
          (case nangoDeleteConnection sv (c_connectionId connector) of
             Some e \<Rightarrow>
               (Some e,
                [GetAccessToken (c_connectionId connector), SlackAppsUninstall accessToken,
                 NangoDeleteConnection (c_connectionId connector)])
           | None \<Rightarrow>
               (None,
                [GetAccessToken (c_connectionId connector), SlackAppsUninstall accessToken,
                 NangoDeleteConnection (c_connectionId connector),
                 LogInfo ''Deactivated the Slack app''])))"

text \<open>The two \<^verbatim>\<open>destroy\<close> calls at the end of the function.\<close>

definition destroyConnectorRows :: "ModelId \<Rightarrow> db \<Rightarrow> db" where
  "destroyConnectorRows connectorId d =
     d\<lparr>slackMessages := filter (\<lambda>m. m_connectorId m \<noteq> connectorId) (slackMessages d),
       slackConfigurations :=
         filter (\<lambda>r. sc_connectorId r \<noteq> connectorId) (slackConfigurations d)\<rparr>"

text \<open>\<^verbatim>\<open>SlackConfiguration.findAll({ where: { slackTeamId } })\<close>\<close>

definition findTeamConfigurations :: "db \<Rightarrow> string \<Rightarrow> SlackConfiguration list" where
  "findTeamConfigurations d slackTeamId =
     filter (\<lambda>r. sc_slackTeamId r = slackTeamId) (slackConfigurations d)"

definition cleanupSlackConnector :: "services \<Rightarrow> db \<Rightarrow> ModelId \<Rightarrow> unit outcome" where
  "cleanupSlackConnector sv d connectorId =
     (case findConnector d connectorId of
        None \<Rightarrow>
          \<lparr>result = Inl (Error ''Could not find connector with id''),
           store = d, trace = [DbRead ConnectorT CallerTransaction]\<rparr>
      | Some connector \<Rightarrow>
          (case findConfiguration d connectorId of
             None \<Rightarrow>
               \<lparr>result = Inl (Error ''Could not find configuration for connector id''),
                store = d,
                trace = [DbRead ConnectorT CallerTransaction,
                         DbRead SlackConfigurationT CallerTransaction]\<rparr>
           | Some configuration \<Rightarrow>
               let configurations = findTeamConfigurations d (sc_slackTeamId configuration);
                   reads = [DbRead ConnectorT CallerTransaction,
                            DbRead SlackConfigurationT CallerTransaction,
                            DbRead SlackConfigurationT CallerTransaction];
                   deactivation =
                     (if length configurations = 1 then deactivateSlackApp sv connector
                      else (None, [LogInfo ''Skipping deactivation of the Slack app'']))
               in
               (case fst deactivation of
                  Some e \<Rightarrow>
                    \<lparr>result = Inl e, store = d, trace = reads @ snd deactivation\<rparr>
                | None \<Rightarrow>
                    \<lparr>result = Inr (),
                     store = destroyConnectorRows connectorId d,
                     trace = reads @ snd deactivation @
                       [DbDestroy SlackMessagesT connectorId CallerTransaction,
                        DbDestroy SlackConfigurationT connectorId CallerTransaction]\<rparr>)))"

subsection \<open>index.ts: retrieveSlackConnectorPermissions\<close>

record ConnectorResource =
  r_provider :: string
  r_internalId :: string
  r_parentInternalId :: "string option"
  r_type :: string
  r_title :: string
  r_sourceUrl :: string
  r_expandable :: bool
  r_permission :: ConnectorPermission

text \<open>The \<^verbatim>\<open>switch\<close> on \<^verbatim>\<open>filterPermission\<close>; it has no case for "none" and no default.\<close>

definition permissionToFilter :: "ConnectorPermission option \<Rightarrow> ConnectorPermission list" where
  "permissionToFilter filterPermission =
     (case filterPermission of
        Some PRead \<Rightarrow> [PRead, PReadWrite]
      | Some PWrite \<Rightarrow> [PWrite, PReadWrite]
      | Some PReadWrite \<Rightarrow> [PReadWrite]
      | _ \<Rightarrow> [])"

text \<open>
  The condition \<^verbatim>\<open>permission: { [Op.or]: permissionToFilter }\<close> on one row. The query
  builder joins the conditions of the list with OR and drops the condition when the list
  is empty, so that every row passes.
\<close>

definition opOr :: "ConnectorPermission list \<Rightarrow> ConnectorPermission \<Rightarrow> bool" where
  "opOr ps p = (if ps = [] then True else p \<in> set ps)"

text \<open>
  The \<^verbatim>\<open>where\<close> clause of the query. Every value of \<^verbatim>\<open>ConnectorPermission\<close> is a
  non-empty string, so \<^verbatim>\<open>filterPermission ? ... : ...\<close> takes the first branch whenever a
  filter is given.
\<close>

definition channelWhere ::
  "ModelId \<Rightarrow> ConnectorPermission option \<Rightarrow> SlackChannel \<Rightarrow> bool" where
  "channelWhere connectorId filterPermission ch =
     (case filterPermission of
        Some _ \<Rightarrow> ch_connectorId ch = connectorId \<and>
                  opOr (permissionToFilter filterPermission) (ch_permission ch)
      | None \<Rightarrow> ch_connectorId ch = connectorId)"

text \<open>
  \<^verbatim>\<open>order: [["createdAt", "DESC"], ["slackChannelName", "ASC"]]\<close>, with names compared
  character by character.
\<close>

definition orderChannels :: "SlackChannel list \<Rightarrow> SlackChannel list" where
  "orderChannels rows = sort_key (\<lambda>ch. (- ch_createdAt ch, ch_slackChannelName ch)) rows"

definition toResource :: "SlackConfiguration \<Rightarrow> SlackChannel \<Rightarrow> ConnectorResource" where
  "toResource slackConfig ch =
     \<lparr>r_provider = ''slack'',
      r_internalId = ch_slackChannelId ch,
      r_parentInternalId = None,
      r_type = ''channel'',
      r_title = ch_slackChannelName ch,
      r_sourceUrl = ''https://app.slack.com/client/'' @ sc_slackTeamId slackConfig
                      @ ''/'' @ ch_slackChannelId ch,
      r_expandable = False,
      r_permission = ch_permission ch\<rparr>"

definition retrieveSlackConnectorPermissions ::
  "db \<Rightarrow> ModelId \<Rightarrow> string option \<Rightarrow> ConnectorPermission option
     \<Rightarrow> ConnectorResource list outcome" where
  "retrieveSlackConnectorPermissions d connectorId parentInternalId filterPermission =
     (if truthy parentInternalId then
        \<lparr>result = Inl (Error ''Slack connector does not support permission retrieval with `parentInternalId`''),
         store = d, trace = []\<rparr>
      else
        (case findConnector d connectorId of
           None \<Rightarrow>
             \<lparr>result = Inl (Error ''Connector not found''),
              store = d,
              trace = [DbRead ConnectorT NoTransaction, LogError ''Connector not found'']\<rparr>
         | Some c \<Rightarrow>
             (case findConfiguration d connectorId of
                None \<Rightarrow>
                  \<lparr>result = Inl (Error ''Slack configuration not found''),
                   store = d,
                   trace = [DbRead ConnectorT NoTransaction,
                            DbRead SlackConfigurationT NoTransaction,
                            LogError ''Slack configuration not found'']\<rparr>
              | Some slackConfig \<Rightarrow>
                  let slackChannels =
                        orderChannels
                          (filter (channelWhere connectorId filterPermission) (slackChannels d))
                  in
                  \<lparr>result = Inr (map (toResource slackConfig) slackChannels),
                   store = d,
                   trace = [DbRead ConnectorT NoTransaction,
                            DbRead SlackConfigurationT NoTransaction,
                            DbRead SlackChannelT NoTransaction]\<rparr>)))"

subsection \<open>index.ts: setSlackConnectorPermissions\<close>

text \<open>
  \<^verbatim>\<open>permissions\<close> is given by its \<^verbatim>\<open>Object.entries\<close>: a list of pairs whose keys are
  distinct. The rows found are folded into a plain object with \<^verbatim>\<open>Object.assign\<close>, a later
  row replacing an earlier one with the same \<^verbatim>\<open>slackChannelId\<close>.
\<close>

fun reduceChannels ::
  "(string \<rightharpoonup> SlackChannel) \<Rightarrow> SlackChannel list \<Rightarrow> (string \<rightharpoonup> SlackChannel)" where
  "reduceChannels acc [] = acc"
| "reduceChannels acc (c # cs) = reduceChannels (acc(ch_slackChannelId c \<mapsto> c)) cs"

text \<open>
  \<^verbatim>\<open>channels[id]\<close> on that object, whose prototype is \<^verbatim>\<open>Object.prototype\<close>: the row
  stored under \<open>id\<close>; else, for the name of a member of \<^verbatim>\<open>Object.prototype\<close>, that
  member, which is a function or an object and so truthy; else \<^verbatim>\<open>undefined\<close>.
  A stored row whose \<^verbatim>\<open>slackChannelId\<close> is \<^verbatim>\<open>__proto__\<close> would make
  \<^verbatim>\<open>Object.assign\<close> replace the prototype; such rows are read here as any other row.
\<close>

definition objectPrototypeMembers :: "string list" where
  "objectPrototypeMembers =
     [''__proto__'', ''__defineGetter__'', ''__defineSetter__'', ''__lookupGetter__'',
      ''__lookupSetter__'', ''constructor'', ''hasOwnProperty'', ''isPrototypeOf'',
      ''propertyIsEnumerable'', ''toLocaleString'', ''toString'', ''valueOf'']"

datatype channel_lookup = Undefined | InheritedMember | Row SlackChannel

definition lookupChannel :: "(string \<rightharpoonup> SlackChannel) \<Rightarrow> string \<Rightarrow> channel_lookup" where
  "lookupChannel channels k =
     (case channels k of
        Some c \<Rightarrow> Row c
      | None \<Rightarrow> if k \<in> set objectPrototypeMembers then InheritedMember else Undefined)"

text \<open>\<^verbatim>\<open>["read", "read_write"].includes(p)\<close>\<close>

definition includesRead :: "ConnectorPermission \<Rightarrow> bool" where
  "includesRead p = (p \<in> set [PRead, PReadWrite])"

text \<open>\<^verbatim>\<open>channel.update({ permission })\<close> writes to the row with the primary key of the instance.\<close>

definition setPermissionRow ::
  "ModelId \<Rightarrow> ConnectorPermission \<Rightarrow> SlackChannel list \<Rightarrow> SlackChannel list" where
  "setPermissionRow pk p rows = map (\<lambda>r. if ch_id r = pk then r\<lparr>ch_permission := p\<rparr> else r) rows"

text \<open>
  The state of one call while its queued tasks run: the database with the writes of the
  tasks run so far, the events of those tasks, the promises rejected so far, each with
  the id of its entry, and the flag \<^verbatim>\<open>shouldGarbageCollect\<close>.

  The queue starts up to ten tasks as they are added and the others as tasks finish. A
  task reads the row instance fetched before the loop, writes only to the row of its own
  channel and only ever sets the flag. A task that throws rejects its own promise and the
  queue goes on with the others, so every task runs in the end. The state is computed
  task by task in the order of the entries: the trace keeps the events of one task in
  their order and lists the tasks one after the other. That is not the order in which the
  program issues the calls of different tasks: it issues the updates of the tasks it
  starts in the loop before any launch.
\<close>

record batch =
  b_store :: db
  b_trace :: "event list"
  b_rejections :: "(string \<times> error) list"
  shouldGarbageCollect :: bool

definition reject :: "string \<Rightarrow> error \<Rightarrow> batch \<Rightarrow> batch" where
  "reject entryId e st = st\<lparr>b_rejections := b_rejections st @ [(entryId, e)]\<rparr>"

text \<open>
  The body of the function given to \<^verbatim>\<open>q.add\<close>, for an entry whose row was found; it
  closes over the id and the permission of the entry and over the row.
\<close>

definition runTask ::
  "services \<Rightarrow> ModelId \<Rightarrow> string \<Rightarrow> SlackChannel \<Rightarrow> ConnectorPermission \<Rightarrow> batch \<Rightarrow> batch" where
  "runTask sv connectorId entryId channel permission st =
     (let oldPermission = ch_permission channel in
      if oldPermission = permission then st
      else
        let st1 = st\<lparr>b_store := (b_store st)\<lparr>slackChannels :=
                        setPermissionRow (ch_id channel) permission (slackChannels (b_store st))\<rparr>,
                      b_trace := b_trace st @ [DbUpdate SlackChannelT (ch_id channel) NoTransaction]\<rparr>
        in
        if \<not> includesRead oldPermission \<and> includesRead permission then
          (let st2 = st1\<lparr>b_trace := b_trace st1 @
                          [LaunchSlackBotJoinedWorkflow connectorId (ch_slackChannelId channel)]\<rparr>
           in
           case launchSlackBotJoinedWorkflow sv connectorId (ch_slackChannelId channel) of
             Some e \<Rightarrow> reject entryId e st2
           | None \<Rightarrow>
               if includesRead oldPermission \<and> \<not> includesRead permission
               then st2\<lparr>shouldGarbageCollect := True\<rparr> else st2)
        else if includesRead oldPermission \<and> \<not> includesRead permission
        then st1\<lparr>shouldGarbageCollect := True\<rparr> else st1)"

text \<open>
  One entry of the \<^verbatim>\<open>for\<close> loop. For an inherited member the task reads
  \<^verbatim>\<open>channel.permission\<close>, which is \<^verbatim>\<open>undefined\<close> and differs from every permission, and
  then calls \<^verbatim>\<open>channel.update\<close>, which is not a function.
\<close>

definition processEntry ::
  "services \<Rightarrow> ModelId \<Rightarrow> (string \<rightharpoonup> SlackChannel) \<Rightarrow> string \<times> ConnectorPermission
     \<Rightarrow> batch \<Rightarrow> batch" where
  "processEntry sv connectorId channels entry st =
     (case lookupChannel channels (fst entry) of
        Undefined \<Rightarrow> st\<lparr>b_trace := b_trace st @ [LogChannelNotFound connectorId (fst entry)]\<rparr>
      | InheritedMember \<Rightarrow> reject (fst entry) (TypeError ''channel.update is not a function'') st
      | Row channel \<Rightarrow> runTask sv connectorId (fst entry) channel (snd entry) st)"

fun processEntries ::
  "services \<Rightarrow> ModelId \<Rightarrow> (string \<rightharpoonup> SlackChannel) \<Rightarrow> (string \<times> ConnectorPermission) list
     \<Rightarrow> batch \<Rightarrow> batch" where
  "processEntries sv connectorId channels [] st = st"
| "processEntries sv connectorId channels (entry # entries) st =
     processEntries sv connectorId channels entries (processEntry sv connectorId channels entry st)"

text \<open>The rows of \<^verbatim>\<open>SlackChannel.findAll\<close> with the keys of \<^verbatim>\<open>permissions\<close>.\<close>

definition findChannels ::
  "db \<Rightarrow> ModelId \<Rightarrow> (string \<times> ConnectorPermission) list \<Rightarrow> SlackChannel list" where
  "findChannels d connectorId permissions =
     filter (\<lambda>c. ch_connectorId c = connectorId \<and> ch_slackChannelId c \<in> set (map fst permissions))
       (slackChannels d)"

text \<open>
  The object \<^verbatim>\<open>channels\<close>, and the state before the loop: the three reads are done.
\<close>

definition channelsOf ::
  "db \<Rightarrow> ModelId \<Rightarrow> (string \<times> ConnectorPermission) list \<Rightarrow> (string \<rightharpoonup> SlackChannel)" where
  "channelsOf d connectorId permissions =
     reduceChannels Map.empty (findChannels d connectorId permissions)"

definition startBatch :: "db \<Rightarrow> batch" where
  "startBatch d =
     \<lparr>b_store = d,
      b_trace = [DbRead ConnectorT NoTransaction,
                 DbRead SlackConfigurationT NoTransaction,
                 DbRead SlackChannelT NoTransaction],
      b_rejections = [],
      shouldGarbageCollect = False\<rparr>"

text \<open>
  The writes of the tasks of some entries, done on the rows of the table.
\<close>

fun applyWrites ::
  "(string \<rightharpoonup> SlackChannel) \<Rightarrow> (string \<times> ConnectorPermission) list \<Rightarrow> SlackChannel list
     \<Rightarrow> SlackChannel list" where
  "applyWrites channels [] rows = rows"
| "applyWrites channels (entry # entries) rows =
     applyWrites channels entries
       (case channels (fst entry) of
          None \<Rightarrow> rows
        | Some channel \<Rightarrow>
            if ch_permission channel = snd entry then rows
            else setPermissionRow (ch_id channel) (snd entry) rows)"

text \<open>
  The end of the function: \<^verbatim>\<open>await Promise.all(promises)\<close> in its \<^verbatim>\<open>try\<close>, then the
  launch of the garbage collection.

  When no promise is rejected, \<^verbatim>\<open>Promise.all\<close> resolves after the last task: the store
  is the one all the tasks have written to. When a promise is rejected, the function
  returns at the first rejection with the other tasks pending: the result is the
  rejection seen first, and of the writes of the batch the store has those that have
  landed, which are the write of the rejecting task itself (it awaited its update before
  the launch that failed) and the writes the services say have landed. The trace is that
  of all the tasks, the pending ones included.
\<close>

definition finishBatch ::
  "services \<Rightarrow> db \<Rightarrow> ModelId \<Rightarrow> (string \<rightharpoonup> SlackChannel)
     \<Rightarrow> (string \<times> ConnectorPermission) list \<Rightarrow> batch \<Rightarrow> unit outcome" where
  "finishBatch sv d connectorId channels permissions st =
     (case b_rejections st of
        r # rs \<Rightarrow>
          let first = (r # rs) ! (rejectsFirst sv mod length (r # rs));
              landed = filter (\<lambda>entry. fst entry = fst first \<or> landedAtReturn sv (fst entry))
                         permissions
          in \<lparr>result = Inl (snd first),
              store = d\<lparr>slackChannels := applyWrites channels landed (slackChannels d)\<rparr>,
              trace = b_trace st\<rparr>
      | [] \<Rightarrow>
          if shouldGarbageCollect st then
            (case launchSlackGarbageCollectWorkflow sv connectorId of
               Some e \<Rightarrow>
                 \<lparr>result = Inl e, store = b_store st,
                  trace = b_trace st @ [LaunchSlackGarbageCollectWorkflow connectorId]\<rparr>
             | None \<Rightarrow>
                 \<lparr>result = Inr (), store = b_store st,
                  trace = b_trace st @ [LaunchSlackGarbageCollectWorkflow connectorId]\<rparr>)
          else \<lparr>result = Inr (), store = b_store st, trace = b_trace st\<rparr>)"

definition setSlackConnectorPermissions ::
  "services \<Rightarrow> db \<Rightarrow> ModelId \<Rightarrow> (string \<times> ConnectorPermission) list \<Rightarrow> unit outcome" where
  "setSlackConnectorPermissions sv d connectorId permissions =
     (case findConnector d connectorId of
        None \<Rightarrow>
          \<lparr>result = Inl (Error ''Connector not found with id''),
           store = d, trace = [DbRead ConnectorT NoTransaction]\<rparr>
      | Some connector \<Rightarrow>
          (case findConfiguration d connectorId of
             None \<Rightarrow>
               \<lparr>result = Inl (Error ''Could not find configuration for connector id''),
                store = d,
                trace = [DbRead ConnectorT NoTransaction,
                         DbRead SlackConfigurationT NoTransaction]\<rparr>
           | Some configuration \<Rightarrow>
               finishBatch sv d connectorId (channelsOf d connectorId permissions) permissions
                 (processEntries sv connectorId (channelsOf d connectorId permissions)
                    permissions (startBatch d))))"

subsection \<open>A concrete store\<close>

text \<open>
  Connector 1 is the only connector of team T1; connectors 2 and 3 share team T2.
  Connector 1 has the four channels A (read), B (write), C (read_write) and D (none).
\<close>

definition mkConnector :: "ModelId \<Rightarrow> string \<Rightarrow> Connector" where
  "mkConnector i conn =
     \<lparr>c_id = i, c_type = ''slack'', c_connectionId = conn, c_workspaceAPIKey = ''key'',
      c_workspaceId = ''w'', c_dataSourceName = ''managed-slack'',
      c_defaultNewResourcePermission = PReadWrite\<rparr>"

definition mkChannel ::
  "ModelId \<Rightarrow> ModelId \<Rightarrow> string \<Rightarrow> ConnectorPermission \<Rightarrow> int \<Rightarrow> SlackChannel" where
  "mkChannel i connectorId name p t =
     \<lparr>ch_id = i, ch_connectorId = connectorId, ch_slackChannelId = name,
      ch_slackChannelName = name, ch_permission = p, ch_createdAt = t\<rparr>"

definition exampleDb :: db where
  "exampleDb =
     \<lparr>connectors = [mkConnector 1 ''conn-1'', mkConnector 2 ''conn-2'', mkConnector 3 ''conn-3''],
      slackConfigurations =
        [\<lparr>sc_id = 1, sc_slackTeamId = ''T1'', sc_connectorId = 1, sc_botEnabled = False\<rparr>,
         \<lparr>sc_id = 2, sc_slackTeamId = ''T2'', sc_connectorId = 2, sc_botEnabled = False\<rparr>,
         \<lparr>sc_id = 3, sc_slackTeamId = ''T2'', sc_connectorId = 3, sc_botEnabled = True\<rparr>],
      slackChannels =
        [mkChannel 1 1 ''A'' PRead 10, mkChannel 2 1 ''B'' PWrite 20,
         mkChannel 3 1 ''C'' PReadWrite 30, mkChannel 4 1 ''D'' PNone 40,
         mkChannel 5 2 ''E'' PRead 50, mkChannel 6 3 ''F'' PRead 60],
      slackMessages =
        [\<lparr>m_id = 1, m_connectorId = 1, m_channelId = ''A'', m_messageTs = ''1''\<rparr>,
         \<lparr>m_id = 2, m_connectorId = 2, m_channelId = ''E'', m_messageTs = ''2''\<rparr>,
         \<lparr>m_id = 3, m_connectorId = 3, m_channelId = ''F'', m_messageTs = ''3''\<rparr>],
      nextConnectorId = 4,
      nextSlackConfigurationId = 4\<rparr>"

text \<open>
  Services that are configured and answer every call with success, for team T1; should a
  task reject, the first rejection in the order of the entries is seen first and every
  write has landed.
\<close>

definition exampleServices :: services where
  "exampleServices =
     \<lparr>NANGO_SLACK_CONNECTOR_ID = Some ''slack'',
      SLACK_CLIENT_ID = Some ''client'',
      SLACK_CLIENT_SECRET = Some ''secret'',
      nangoGetToken = (\<lambda>c. ''token''),
      slackTeamInfo = (\<lambda>t. \<lparr>ti_ok = True, ti_error = None, ti_teamId = Some ''T1''\<rparr>),
      nangoGetConnectionTeamId = (\<lambda>c. Some ''T1''),
      getAccessToken = (\<lambda>c. ''token''),
      slackAppsUninstall = (\<lambda>t. \<lparr>un_ok = True, un_error = None\<rparr>),
      nangoDeleteConnection = (\<lambda>c. None),
      launchSlackSyncWorkflow = (\<lambda>c. None),
      launchSlackBotJoinedWorkflow = (\<lambda>c ch. None),
      launchSlackGarbageCollectWorkflow = (\<lambda>c. None),
      rejectsFirst = 0,
      landedAtReturn = (\<lambda>k. True)\<rparr>"

definition failedTeamInfoServices :: services where
  "failedTeamInfoServices =
     exampleServices\<lparr>slackTeamInfo :=
       (\<lambda>t. \<lparr>ti_ok = False, ti_error = Some ''invalid_auth'', ti_teamId = None\<rparr>)\<rparr>"

definition exampleConfig :: DataSourceConfig where
  "exampleConfig =
     \<lparr>workspaceAPIKey = ''key'', workspaceId = ''w'', dataSourceName = ''managed-slack''\<rparr>"

definition failedBotJoinServices :: services where
  "failedBotJoinServices =
     exampleServices\<lparr>launchSlackBotJoinedWorkflow :=
       (\<lambda>c ch. Some (External ''temporal unavailable''))\<rparr>"

text \<open>The bot-join launch fails and no other write has landed when the function returns.\<close>

definition pendingWriteServices :: services where
  "pendingWriteServices = failedBotJoinServices\<lparr>landedAtReturn := (\<lambda>k. False)\<rparr>"

definition unsetClientIdServices :: services where
  "unsetClientIdServices = exampleServices\<lparr>SLACK_CLIENT_ID := None\<rparr>"

definition failedNangoDeleteServices :: services where
  "failedNangoDeleteServices =
     exampleServices\<lparr>nangoDeleteConnection := (\<lambda>c. Some (External ''nango unavailable''))\<rparr>"

definition failedUninstallServices :: services where
  "failedUninstallServices =
     exampleServices\<lparr>slackAppsUninstall :=
       (\<lambda>t. \<lparr>un_ok = False, un_error = Some ''invalid_auth''\<rparr>)\<rparr>"

subsection \<open>Notions used in the statements\<close>

text \<open>The three environment variables of the revoke are set.\<close>

definition envSet :: "services \<Rightarrow> bool" where
  "envSet sv =
     (truthy (NANGO_SLACK_CONNECTOR_ID sv) \<and> truthy (SLACK_CLIENT_ID sv) \<and>
      truthy (SLACK_CLIENT_SECRET sv))"

text \<open>The three reads at the start of \<open>cleanupSlackConnector\<close>.\<close>

definition cleanupReads :: "event list" where
  "cleanupReads =
     [DbRead ConnectorT CallerTransaction,
      DbRead SlackConfigurationT CallerTransaction,
      DbRead SlackConfigurationT CallerTransaction]"

definition isUninstall :: "event \<Rightarrow> bool" where
  "isUninstall e = (case e of SlackAppsUninstall _ \<Rightarrow> True | _ \<Rightarrow> False)"

definition isConnectionDeletion :: "event \<Rightarrow> bool" where
  "isConnectionDeletion e = (case e of NangoDeleteConnection _ \<Rightarrow> True | _ \<Rightarrow> False)"


definition isGarbageCollect :: "event \<Rightarrow> bool" where
  "isGarbageCollect e = (case e of LaunchSlackGarbageCollectWorkflow _ \<Rightarrow> True | _ \<Rightarrow> False)"

definition isLaunch :: "event \<Rightarrow> bool" where
  "isLaunch e =
     (case e of
        LaunchSlackBotJoinedWorkflow _ _ \<Rightarrow> True
      | LaunchSlackGarbageCollectWorkflow _ \<Rightarrow> True
      | LaunchSlackSyncWorkflow _ \<Rightarrow> True
      | _ \<Rightarrow> False)"

definition isDbUpdate :: "event \<Rightarrow> bool" where
  "isDbUpdate e = (case e of DbUpdate _ _ _ \<Rightarrow> True | _ \<Rightarrow> False)"

text \<open>
  An entry of a batch takes its channel from "no read" to "read", or from "read" to
  "no read".
\<close>

definition gainsRead :: "(string \<rightharpoonup> SlackChannel) \<Rightarrow> string \<times> ConnectorPermission \<Rightarrow> bool" where
  "gainsRead channels entry =
     (case channels (fst entry) of
        None \<Rightarrow> False
      | Some ch \<Rightarrow> \<not> includesRead (ch_permission ch) \<and> includesRead (snd entry))"

definition losesRead :: "(string \<rightharpoonup> SlackChannel) \<Rightarrow> string \<times> ConnectorPermission \<Rightarrow> bool" where
  "losesRead channels entry =
     (case channels (fst entry) of
        None \<Rightarrow> False
      | Some ch \<Rightarrow> includesRead (ch_permission ch) \<and> \<not> includesRead (snd entry))"

text \<open>
  What the task of one entry rejects with, if it does: the error of the bot-join launch
  of an entry that gains read, or the type error of an entry whose key names a member of
  \<^verbatim>\<open>Object.prototype\<close> and no row.
\<close>

definition entryRejection ::
  "services \<Rightarrow> ModelId \<Rightarrow> (string \<rightharpoonup> SlackChannel) \<Rightarrow> string \<times> ConnectorPermission
     \<Rightarrow> error option" where
  "entryRejection sv connectorId channels entry =
     (case lookupChannel channels (fst entry) of
        Undefined \<Rightarrow> None
      | InheritedMember \<Rightarrow> Some (TypeError ''channel.update is not a function'')
      | Row ch \<Rightarrow>
          if gainsRead channels entry
          then launchSlackBotJoinedWorkflow sv connectorId (ch_slackChannelId ch)
          else None)"

definition tasksSucceed ::
  "services \<Rightarrow> ModelId \<Rightarrow> (string \<rightharpoonup> SlackChannel) \<Rightarrow> (string \<times> ConnectorPermission) list
     \<Rightarrow> bool" where
  "tasksSucceed sv connectorId channels permissions =
     (\<forall>entry \<in> set permissions. entryRejection sv connectorId channels entry = None)"

text \<open>
  The rejections of a batch in the order of its entries, each with the id of its entry,
  and the entries whose writes are in the store when the function returns: all of them
  when no task rejects, else the entry of the rejection seen first and those whose write
  has landed.
\<close>

definition entryRejections ::
  "services \<Rightarrow> ModelId \<Rightarrow> (string \<rightharpoonup> SlackChannel) \<Rightarrow> string \<times> ConnectorPermission
     \<Rightarrow> (string \<times> error) list" where
  "entryRejections sv connectorId channels entry =
     (case entryRejection sv connectorId channels entry of
        None \<Rightarrow> []
      | Some e \<Rightarrow> [(fst entry, e)])"

definition rejectionsOf ::
  "services \<Rightarrow> ModelId \<Rightarrow> (string \<rightharpoonup> SlackChannel) \<Rightarrow> (string \<times> ConnectorPermission) list
     \<Rightarrow> (string \<times> error) list" where
  "rejectionsOf sv connectorId channels permissions =
     concat (map (entryRejections sv connectorId channels) permissions)"

definition writesAtReturn ::
  "services \<Rightarrow> ModelId \<Rightarrow> (string \<rightharpoonup> SlackChannel) \<Rightarrow> (string \<times> ConnectorPermission) list
     \<Rightarrow> (string \<times> ConnectorPermission) list" where
  "writesAtReturn sv connectorId channels permissions =
     (case rejectionsOf sv connectorId channels permissions of
        [] \<Rightarrow> permissions
      | r # rs \<Rightarrow>
          filter (\<lambda>entry. fst entry = fst ((r # rs) ! (rejectsFirst sv mod length (r # rs))) \<or>
                          landedAtReturn sv (fst entry))
            permissions)"

text \<open>The events one entry adds to the trace, and what it makes of a row.\<close>

definition entryEvents ::
  "services \<Rightarrow> ModelId \<Rightarrow> (string \<rightharpoonup> SlackChannel) \<Rightarrow> string \<times> ConnectorPermission
     \<Rightarrow> event list" where
  "entryEvents sv connectorId channels entry =
     (case lookupChannel channels (fst entry) of
        Undefined \<Rightarrow> [LogChannelNotFound connectorId (fst entry)]
      | InheritedMember \<Rightarrow> []
      | Row ch \<Rightarrow>
          if ch_permission ch = snd entry then []
          else DbUpdate SlackChannelT (ch_id ch) NoTransaction #
               (if gainsRead channels entry
                then [LaunchSlackBotJoinedWorkflow connectorId (ch_slackChannelId ch)]
                else []))"

definition entryRow ::
  "(string \<rightharpoonup> SlackChannel) \<Rightarrow> string \<times> ConnectorPermission \<Rightarrow> SlackChannel \<Rightarrow> SlackChannel" where
  "entryRow channels entry r =
     (case channels (fst entry) of
        None \<Rightarrow> r
      | Some ch \<Rightarrow>
          if ch_permission ch \<noteq> snd entry \<and> ch_id r = ch_id ch
          then r\<lparr>ch_permission := snd entry\<rparr> else r)"

fun rowAfter ::
  "(string \<rightharpoonup> SlackChannel) \<Rightarrow> (string \<times> ConnectorPermission) list \<Rightarrow> SlackChannel
     \<Rightarrow> SlackChannel" where
  "rowAfter channels [] r = r"
| "rowAfter channels (entry # entries) r = rowAfter channels entries (entryRow channels entry r)"

text \<open>Every entry that finds its channel finds it with the permission it asks for.\<close>

definition settled :: "(string \<rightharpoonup> SlackChannel) \<Rightarrow> (string \<times> ConnectorPermission) list \<Rightarrow> bool" where
  "settled chs es =
     (\<forall>e \<in> set es. case chs (fst e) of None \<Rightarrow> True | Some c \<Rightarrow> ch_permission c = snd e)"

text \<open>Some other connector has a SlackConfiguration row with the given team id.\<close>

definition siblingOfTeam :: "db \<Rightarrow> ModelId \<Rightarrow> string \<Rightarrow> bool" where
  "siblingOfTeam d connectorId slackTeamId =
     (\<exists>r \<in> set (slackConfigurations d).
        sc_connectorId r \<noteq> connectorId \<and> sc_slackTeamId r = slackTeamId)"

text \<open>The rows of a connector in the three tables that carry a connector id.\<close>

definition rowsOf ::
  "db \<Rightarrow> ModelId \<Rightarrow> SlackConfiguration list \<times> SlackChannel list \<times> SlackMessages list" where
  "rowsOf d connectorId =
     (filter (\<lambda>r. sc_connectorId r = connectorId) (slackConfigurations d),
      filter (\<lambda>c. ch_connectorId c = connectorId) (slackChannels d),
      filter (\<lambda>m. m_connectorId m = connectorId) (slackMessages d))"

text \<open>The channel rows of a connector whose permission is in a given set.\<close>

definition channelsWith :: "db \<Rightarrow> ModelId \<Rightarrow> ConnectorPermission set \<Rightarrow> SlackChannel multiset" where
  "channelsWith d connectorId ps =
     filter_mset (\<lambda>ch. ch_connectorId ch = connectorId \<and> ch_permission ch \<in> ps)
       (mset (slackChannels d))"

text \<open>
  The call returned Ok, and the resources returned are exactly the given channel rows,
  each once: their ids, titles and permissions are the Slack channel ids, the channel
  names and the permissions of these rows.
\<close>

definition returnsChannels ::
  "ConnectorResource list outcome \<Rightarrow> SlackChannel multiset \<Rightarrow> bool" where
  "returnsChannels out chans =
     (case result out of
        Inl _ \<Rightarrow> False
      | Inr rs \<Rightarrow>
          image_mset (\<lambda>r. (r_internalId r, r_title r, r_permission r)) (mset rs) =
          image_mset (\<lambda>ch. (ch_slackChannelId ch, ch_slackChannelName ch, ch_permission ch))
            chans)"

definition isDbCreate :: "event \<Rightarrow> bool" where
  "isDbCreate e = (case e of DbCreate _ _ _ \<Rightarrow> True | _ \<Rightarrow> False)"

section \<open>Properties\<close>

subsection \<open>Listing permissions\<close>

lemma mset_orderChannels: "mset (orderChannels rows) = mset rows"
  by (simp add: orderChannels_def)

lemma channelWhere_filters:
  "channelWhere cid (Some PRead) ch =
     (ch_connectorId ch = cid \<and> ch_permission ch \<in> {PRead, PReadWrite})"
  "channelWhere cid (Some PWrite) ch =
     (ch_connectorId ch = cid \<and> ch_permission ch \<in> {PWrite, PReadWrite})"
  "channelWhere cid (Some PReadWrite) ch =
     (ch_connectorId ch = cid \<and> ch_permission ch \<in> {PReadWrite})"
  "channelWhere cid None ch = (ch_connectorId ch = cid \<and> ch_permission ch \<in> UNIV)"
  by (auto simp: channelWhere_def opOr_def permissionToFilter_def)

lemma retrieve_found:
  assumes "findConnector d connectorId = Some c"
      and "findConfiguration d connectorId = Some slackConfig"
      and "\<not> truthy parentInternalId"
  shows "result (retrieveSlackConnectorPermissions d connectorId parentInternalId f) =
           Inr (map (toResource slackConfig)
                  (orderChannels (filter (channelWhere connectorId f) (slackChannels d))))"
  using assms by (simp add: retrieveSlackConnectorPermissions_def)

lemma toResource_fields:
  "(\<lambda>r. (r_internalId r, r_title r, r_permission r)) \<circ> toResource slackConfig =
     (\<lambda>ch. (ch_slackChannelId ch, ch_slackChannelName ch, ch_permission ch))"
  by (rule ext) (simp add: toResource_def)

text \<open>
  Claim C1. For a connector with its SlackConfiguration row, and a call without
  \<open>parentInternalId\<close>: with the filter "read" the function returns exactly the connector's
  channels whose permission is "read" or "read_write"; with "write" exactly those with
  "write" or "read_write"; with "read_write" exactly those with "read_write"; with no
  filter all the channels of the connector. A channel is returned as the resource that
  carries its Slack channel id, its name and its permission.
\<close>

theorem retrieveSlackConnectorPermissions_filter:
  assumes "findConnector d connectorId = Some c"
      and "findConfiguration d connectorId = Some slackConfig"
      and "\<not> truthy parentInternalId"
  shows "returnsChannels
           (retrieveSlackConnectorPermissions d connectorId parentInternalId (Some PRead))
           (channelsWith d connectorId {PRead, PReadWrite}) \<and>
         returnsChannels
           (retrieveSlackConnectorPermissions d connectorId parentInternalId (Some PWrite))
           (channelsWith d connectorId {PWrite, PReadWrite}) \<and>
         returnsChannels
           (retrieveSlackConnectorPermissions d connectorId parentInternalId (Some PReadWrite))
           (channelsWith d connectorId {PReadWrite}) \<and>
         returnsChannels
           (retrieveSlackConnectorPermissions d connectorId parentInternalId None)
           (channelsWith d connectorId UNIV)"
  using assms
  by (simp add: returnsChannels_def retrieve_found mset_orderChannels channelWhere_filters
        channelsWith_def multiset.map_comp toResource_fields)

theorem retrieveSlackConnectorPermissions_filter_witness:
  "findConnector exampleDb 1 = Some (mkConnector 1 ''conn-1'') \<and>
   findConfiguration exampleDb 1 =
     Some \<lparr>sc_id = 1, sc_slackTeamId = ''T1'', sc_connectorId = 1, sc_botEnabled = False\<rparr> \<and>
   \<not> truthy None \<and>
   returnsChannels (retrieveSlackConnectorPermissions exampleDb 1 None (Some PRead))
     (channelsWith exampleDb 1 {PRead, PReadWrite})"
proof -
  have h1: "findConnector exampleDb 1 = Some (mkConnector 1 ''conn-1'')"
    by (simp add: findConnector_def exampleDb_def mkConnector_def)
  have h2: "findConfiguration exampleDb 1 =
      Some \<lparr>sc_id = 1, sc_slackTeamId = ''T1'', sc_connectorId = 1, sc_botEnabled = False\<rparr>"
    by (simp add: findConfiguration_def exampleDb_def)
  have h3: "\<not> truthy None"
    by (simp add: truthy_def)
  from retrieveSlackConnectorPermissions_filter [OF h1 h2 h3] h1 h2 h3
  show ?thesis by blast
qed

text \<open>
  The example of the specification: of the channels A (read), B (write), C (read_write)
  and D (none), the filter "read" yields C and A, the filter "write" C and B, the filter
  "read_write" C, in the order of the query.
\<close>

lemma retrieve_example:
  "map r_internalId (projr (result
     (retrieveSlackConnectorPermissions exampleDb 1 None (Some PRead)))) = [''C'', ''A'']"
  "map r_internalId (projr (result
     (retrieveSlackConnectorPermissions exampleDb 1 None (Some PWrite)))) = [''C'', ''B'']"
  "map r_internalId (projr (result
     (retrieveSlackConnectorPermissions exampleDb 1 None (Some PReadWrite)))) = [''C'']"
  by (simp_all add: retrieveSlackConnectorPermissions_def truthy_def findConnector_def
        findConfiguration_def exampleDb_def mkConnector_def mkChannel_def channelWhere_def
        opOr_def permissionToFilter_def orderChannels_def toResource_def)

text \<open>
  Claim C9, as the code has it. The test is \<^verbatim>\<open>if (parentInternalId)\<close>: a call whose
  \<open>parentInternalId\<close> is a non-empty string returns the error, reads no row and writes
  none.
\<close>

theorem retrieveSlackConnectorPermissions_parent_rejected:
  "truthy parentInternalId \<Longrightarrow>
     result (retrieveSlackConnectorPermissions d connectorId parentInternalId f) =
       Inl (Error ''Slack connector does not support permission retrieval with `parentInternalId`'') \<and>
     store (retrieveSlackConnectorPermissions d connectorId parentInternalId f) = d \<and>
     trace (retrieveSlackConnectorPermissions d connectorId parentInternalId f) = []"
  by (simp add: retrieveSlackConnectorPermissions_def)

theorem retrieveSlackConnectorPermissions_parent_rejected_witness:
  "truthy (Some ''C'') \<and>
   result (retrieveSlackConnectorPermissions exampleDb 1 (Some ''C'') None) =
     Inl (Error ''Slack connector does not support permission retrieval with `parentInternalId`'') \<and>
   store (retrieveSlackConnectorPermissions exampleDb 1 (Some ''C'') None) = exampleDb \<and>
   trace (retrieveSlackConnectorPermissions exampleDb 1 (Some ''C'') None) = []"
proof -
  have h: "truthy (Some ''C'')"
    by (simp add: truthy_def)
  from retrieveSlackConnectorPermissions_parent_rejected [OF h, of exampleDb 1 None] h
  show ?thesis by blast
qed

text \<open>
  The empty string is not null and is falsy: with it as \<open>parentInternalId\<close> the call is
  not rejected, it reads the three tables and returns Ok.
\<close>

theorem retrieveSlackConnectorPermissions_empty_parent_counterexample:
  "Some [] \<noteq> (None :: string option) \<and>
   \<not> isl (result (retrieveSlackConnectorPermissions exampleDb 1 (Some []) None)) \<and>
   trace (retrieveSlackConnectorPermissions exampleDb 1 (Some []) None) =
     [DbRead ConnectorT NoTransaction, DbRead SlackConfigurationT NoTransaction,
      DbRead SlackChannelT NoTransaction]"
  by (simp add: retrieveSlackConnectorPermissions_def truthy_def findConnector_def
        findConfiguration_def exampleDb_def mkConnector_def)

subsection \<open>Creating a connector\<close>

text \<open>
  Claim C6. When the team-info call is not ok or gives no team id, \<open>createSlackConnector\<close>
  returns an error, the store is the one before the call and no row was created. When
  the validation succeeds, the two rows are created in the transaction the function
  opened, after the validation calls and before the commit.
\<close>

theorem createSlackConnector_validation_failure:
  "(\<not> ti_ok (slackTeamInfo sv (nangoGetToken sv connectionId)) \<or>
    \<not> truthy (ti_teamId (slackTeamInfo sv (nangoGetToken sv connectionId))) \<longrightarrow>
      isl (result (createSlackConnector sv d cfg connectionId)) \<and>
      store (createSlackConnector sv d cfg connectionId) = d \<and>
      filter isDbCreate (trace (createSlackConnector sv d cfg connectionId)) = []) \<and>
   (truthy (NANGO_SLACK_CONNECTOR_ID sv) \<and>
    ti_ok (slackTeamInfo sv (nangoGetToken sv connectionId)) \<and>
    truthy (ti_teamId (slackTeamInfo sv (nangoGetToken sv connectionId))) \<longrightarrow>
      trace (createSlackConnector sv d cfg connectionId) =
        [Begin, NangoGetToken connectionId, SlackTeamInfo (nangoGetToken sv connectionId),
         DbCreate ConnectorT (nextConnectorId d) OwnTransaction,
         DbCreate SlackConfigurationT (nextSlackConfigurationId d) OwnTransaction,
         Commit, LaunchSlackSyncWorkflow (nextConnectorId d)])"
  by (auto simp: createSlackConnector_def Let_def truthy_def truthyValue_def isDbCreate_def
           split: option.splits if_splits)

theorem createSlackConnector_validation_failure_witness:
  "\<not> ti_ok (slackTeamInfo failedTeamInfoServices (nangoGetToken failedTeamInfoServices ''conn-9'')) \<and>
   isl (result (createSlackConnector failedTeamInfoServices exampleDb exampleConfig ''conn-9'')) \<and>
   store (createSlackConnector failedTeamInfoServices exampleDb exampleConfig ''conn-9'') = exampleDb \<and>
   truthy (NANGO_SLACK_CONNECTOR_ID exampleServices) \<and>
   ti_ok (slackTeamInfo exampleServices (nangoGetToken exampleServices ''conn-9'')) \<and>
   truthy (ti_teamId (slackTeamInfo exampleServices (nangoGetToken exampleServices ''conn-9''))) \<and>
   trace (createSlackConnector exampleServices exampleDb exampleConfig ''conn-9'') =
     [Begin, NangoGetToken ''conn-9'', SlackTeamInfo (nangoGetToken exampleServices ''conn-9''),
      DbCreate ConnectorT (nextConnectorId exampleDb) OwnTransaction,
      DbCreate SlackConfigurationT (nextSlackConfigurationId exampleDb) OwnTransaction,
      Commit, LaunchSlackSyncWorkflow (nextConnectorId exampleDb)]"
proof -
  have h1: "\<not> ti_ok (slackTeamInfo failedTeamInfoServices
                         (nangoGetToken failedTeamInfoServices ''conn-9''))"
    by (simp add: failedTeamInfoServices_def exampleServices_def)
  have h2: "truthy (NANGO_SLACK_CONNECTOR_ID exampleServices) \<and>
            ti_ok (slackTeamInfo exampleServices (nangoGetToken exampleServices ''conn-9'')) \<and>
            truthy (ti_teamId (slackTeamInfo exampleServices (nangoGetToken exampleServices ''conn-9'')))"
    by (simp add: exampleServices_def truthy_def)
  from h1 h2
    createSlackConnector_validation_failure
      [of failedTeamInfoServices "''conn-9''" exampleDb exampleConfig]
    createSlackConnector_validation_failure
      [of exampleServices "''conn-9''" exampleDb exampleConfig]
  show ?thesis by blast
qed

subsection \<open>Updating a connector\<close>




subsection \<open>Deleting a connector\<close>

lemma findConfiguration_Some:
  "findConfiguration d cid = Some cfg \<Longrightarrow> cfg \<in> set (slackConfigurations d) \<and> sc_connectorId cfg = cid"
  by (auto simp: findConfiguration_def find_Some_iff)

lemma two_members_length:
  assumes "x \<in> set xs" "y \<in> set xs" "x \<noteq> y"
  shows "2 \<le> length xs"
proof -
  have "{x, y} \<subseteq> set xs" using assms by simp
  then have "card {x, y} \<le> card (set xs)" by (simp add: card_mono)
  moreover have "card {x, y} = 2" using assms by simp
  moreover have "card (set xs) \<le> length xs" by (rule card_length)
  ultimately show ?thesis by linarith
qed

lemma sibling_not_single:
  assumes "findConfiguration d cid = Some cfg"
      and "siblingOfTeam d cid (sc_slackTeamId cfg)"
  shows "length (findTeamConfigurations d (sc_slackTeamId cfg)) \<noteq> 1"
proof -
  from assms(2) obtain r where r: "r \<in> set (slackConfigurations d)"
      "sc_connectorId r \<noteq> cid" "sc_slackTeamId r = sc_slackTeamId cfg"
    by (auto simp: siblingOfTeam_def)
  from findConfiguration_Some [OF assms(1)]
  have c: "cfg \<in> set (slackConfigurations d)" "sc_connectorId cfg = cid" by simp_all
  have "r \<in> set (findTeamConfigurations d (sc_slackTeamId cfg))"
    using r by (simp add: findTeamConfigurations_def)
  moreover have "cfg \<in> set (findTeamConfigurations d (sc_slackTeamId cfg))"
    using c by (simp add: findTeamConfigurations_def)
  moreover have "r \<noteq> cfg" using r c by auto
  ultimately have "2 \<le> length (findTeamConfigurations d (sc_slackTeamId cfg))"
    by (rule two_members_length)
  then show ?thesis by simp
qed

lemma deactivate_calls:
  assumes "truthy (NANGO_SLACK_CONNECTOR_ID sv)" "truthy (SLACK_CLIENT_ID sv)" "truthy (SLACK_CLIENT_SECRET sv)"
  shows "filter isUninstall (snd (deactivateSlackApp sv connector)) =
           [SlackAppsUninstall (getAccessToken sv (c_connectionId connector))]"
    and "filter isConnectionDeletion (snd (deactivateSlackApp sv connector)) =
           (if un_ok (slackAppsUninstall sv (getAccessToken sv (c_connectionId connector)))
            then [NangoDeleteConnection (c_connectionId connector)] else [])"
  using assms
  by (auto simp: deactivateSlackApp_def Let_def isUninstall_def isConnectionDeletion_def split: option.splits)

lemma cleanup_single:
  assumes "findConnector d cid = Some connector"
      and "findConfiguration d cid = Some cfg"
      and "length (findTeamConfigurations d (sc_slackTeamId cfg)) = 1"
  shows "filter isUninstall (trace (cleanupSlackConnector sv d cid)) = filter isUninstall (snd (deactivateSlackApp sv connector))"
    and "filter isConnectionDeletion (trace (cleanupSlackConnector sv d cid)) = filter isConnectionDeletion (snd (deactivateSlackApp sv connector))"
  using assms
  by (auto simp: cleanupSlackConnector_def Let_def isUninstall_def isConnectionDeletion_def split: option.splits)

lemma cleanup_shared:
  assumes "findConnector d cid = Some connector"
      and "findConfiguration d cid = Some cfg"
      and "length (findTeamConfigurations d (sc_slackTeamId cfg)) \<noteq> 1"
  shows "result (cleanupSlackConnector sv d cid) = Inr ()"
    and "store (cleanupSlackConnector sv d cid) = destroyConnectorRows cid d"
    and "filter isUninstall (trace (cleanupSlackConnector sv d cid)) = []"
    and "filter isConnectionDeletion (trace (cleanupSlackConnector sv d cid)) = []"
  using assms
  by (auto simp: cleanupSlackConnector_def Let_def isUninstall_def isConnectionDeletion_def split: option.splits)

lemma rowsOf_destroy:
  "other \<noteq> cid \<Longrightarrow> rowsOf (destroyConnectorRows cid d) other = rowsOf d other"
  by (auto simp: rowsOf_def destroyConnectorRows_def intro: filter_cong)

lemma deactivate_env_unset:
  "\<not> envSet sv \<Longrightarrow>
     fst (deactivateSlackApp sv connector) \<noteq> None \<and> snd (deactivateSlackApp sv connector) = []"
  by (auto simp: deactivateSlackApp_def envSet_def)

lemma cleanup_single_unset:
  assumes "findConnector d cid = Some connector"
      and "findConfiguration d cid = Some cfg"
      and "length (findTeamConfigurations d (sc_slackTeamId cfg)) = 1"
      and "\<not> envSet sv"
  shows "isl (result (cleanupSlackConnector sv d cid))"
    and "store (cleanupSlackConnector sv d cid) = d"
    and "trace (cleanupSlackConnector sv d cid) = cleanupReads"
  using assms deactivate_env_unset [OF assms(4), of connector]
  by (auto simp: cleanupSlackConnector_def Let_def cleanupReads_def split: option.splits)

text \<open>
  Claim C3, as the code has it. Let the connector and its SlackConfiguration row exist.
  When that row is the only one with its \<open>slackTeamId\<close> and the three environment
  variables are set, \<open>cleanupSlackConnector\<close> issues exactly one Slack app uninstall,
  followed by exactly one deletion of the connection when the uninstall succeeded and by
  none when it failed; when one of the variables is unset it issues no uninstall and no
  deletion of a connection and returns an error. When another connector has a
  SlackConfiguration row with the same \<open>slackTeamId\<close>, it issues no uninstall and no
  deletion of a connection, and the Connector table and the rows of every other connector
  are as before.
\<close>

theorem cleanupSlackConnector_revoke:
  assumes "findConnector d connectorId = Some connector"
      and "findConfiguration d connectorId = Some configuration"
  shows "(findTeamConfigurations d (sc_slackTeamId configuration) = [configuration] \<and>
          envSet sv \<longrightarrow>
            filter isUninstall (trace (cleanupSlackConnector sv d connectorId)) =
              [SlackAppsUninstall (getAccessToken sv (c_connectionId connector))] \<and>
            filter isConnectionDeletion (trace (cleanupSlackConnector sv d connectorId)) =
              (if un_ok (slackAppsUninstall sv (getAccessToken sv (c_connectionId connector)))
               then [NangoDeleteConnection (c_connectionId connector)] else [])) \<and>
         (findTeamConfigurations d (sc_slackTeamId configuration) = [configuration] \<and>
          \<not> envSet sv \<longrightarrow>
            filter isUninstall (trace (cleanupSlackConnector sv d connectorId)) = [] \<and>
            filter isConnectionDeletion (trace (cleanupSlackConnector sv d connectorId)) = [] \<and>
            isl (result (cleanupSlackConnector sv d connectorId))) \<and>
         (siblingOfTeam d connectorId (sc_slackTeamId configuration) \<longrightarrow>
            filter isUninstall (trace (cleanupSlackConnector sv d connectorId)) = [] \<and>
            filter isConnectionDeletion (trace (cleanupSlackConnector sv d connectorId)) = [] \<and>
            connectors (store (cleanupSlackConnector sv d connectorId)) = connectors d \<and>
            (\<forall>other. other \<noteq> connectorId \<longrightarrow>
               rowsOf (store (cleanupSlackConnector sv d connectorId)) other = rowsOf d other))"
proof (intro conjI impI)
  assume h: "findTeamConfigurations d (sc_slackTeamId configuration) = [configuration] \<and>
             envSet sv"
  then have one: "length (findTeamConfigurations d (sc_slackTeamId configuration)) = 1" by simp
  from h have env: "truthy (NANGO_SLACK_CONNECTOR_ID sv)" "truthy (SLACK_CLIENT_ID sv)"
      "truthy (SLACK_CLIENT_SECRET sv)"
    by (simp_all add: envSet_def)
  show "filter isUninstall (trace (cleanupSlackConnector sv d connectorId)) =
              [SlackAppsUninstall (getAccessToken sv (c_connectionId connector))]"
    by (simp add: cleanup_single(1) [OF assms one] deactivate_calls(1) [OF env])
  show "filter isConnectionDeletion (trace (cleanupSlackConnector sv d connectorId)) =
              (if un_ok (slackAppsUninstall sv (getAccessToken sv (c_connectionId connector)))
               then [NangoDeleteConnection (c_connectionId connector)] else [])"
    by (simp add: cleanup_single(2) [OF assms one] deactivate_calls(2) [OF env])
next
  assume h: "findTeamConfigurations d (sc_slackTeamId configuration) = [configuration] \<and>
             \<not> envSet sv"
  then have one: "length (findTeamConfigurations d (sc_slackTeamId configuration)) = 1"
    and unset: "\<not> envSet sv" by simp_all
  note u = cleanup_single_unset [OF assms one unset]
  show "filter isUninstall (trace (cleanupSlackConnector sv d connectorId)) = []"
    by (simp add: u(3) cleanupReads_def isUninstall_def)
  show "filter isConnectionDeletion (trace (cleanupSlackConnector sv d connectorId)) = []"
    by (simp add: u(3) cleanupReads_def isConnectionDeletion_def)
  show "isl (result (cleanupSlackConnector sv d connectorId))" by (rule u(1))
next
  assume "siblingOfTeam d connectorId (sc_slackTeamId configuration)"
  with assms(2) have many: "length (findTeamConfigurations d (sc_slackTeamId configuration)) \<noteq> 1"
    by (rule sibling_not_single)
  note sh = cleanup_shared [OF assms many]
  show "filter isUninstall (trace (cleanupSlackConnector sv d connectorId)) = []" by (rule sh(3))
  show "filter isConnectionDeletion (trace (cleanupSlackConnector sv d connectorId)) = []" by (rule sh(4))
  show "connectors (store (cleanupSlackConnector sv d connectorId)) = connectors d"
    by (simp add: sh(2) destroyConnectorRows_def)
  show "\<forall>other. other \<noteq> connectorId \<longrightarrow>
               rowsOf (store (cleanupSlackConnector sv d connectorId)) other = rowsOf d other"
    by (simp add: sh(2) rowsOf_destroy)
qed

lemma example_cleanup:
  "findConnector exampleDb 1 = Some (mkConnector 1 ''conn-1'')"
  "findConfiguration exampleDb 1 = Some \<lparr>sc_id = 1, sc_slackTeamId = ''T1'', sc_connectorId = 1, sc_botEnabled = False\<rparr>"
  "findTeamConfigurations exampleDb ''T1'' = [\<lparr>sc_id = 1, sc_slackTeamId = ''T1'', sc_connectorId = 1, sc_botEnabled = False\<rparr>]"
  "findConnector exampleDb 2 = Some (mkConnector 2 ''conn-2'')"
  "findConfiguration exampleDb 2 = Some \<lparr>sc_id = 2, sc_slackTeamId = ''T2'', sc_connectorId = 2, sc_botEnabled = False\<rparr>"
  "siblingOfTeam exampleDb 2 ''T2''"
  "length (findTeamConfigurations exampleDb ''T2'') \<noteq> 1"
  "findConnector exampleDb 7 = None"
  by (simp_all add: findConnector_def findConfiguration_def findTeamConfigurations_def
        siblingOfTeam_def exampleDb_def mkConnector_def)

lemma example_env:
  "envSet exampleServices" "envSet failedUninstallServices" "envSet failedNangoDeleteServices"
  "\<not> envSet unsetClientIdServices"
  by (simp_all add: envSet_def truthy_def exampleServices_def failedUninstallServices_def
        failedNangoDeleteServices_def unsetClientIdServices_def)

theorem cleanupSlackConnector_revoke_witness:
  "findConnector exampleDb 1 = Some (mkConnector 1 ''conn-1'') \<and>
   findConfiguration exampleDb 1 = Some \<lparr>sc_id = 1, sc_slackTeamId = ''T1'', sc_connectorId = 1, sc_botEnabled = False\<rparr> \<and>
   findTeamConfigurations exampleDb ''T1'' = [\<lparr>sc_id = 1, sc_slackTeamId = ''T1'', sc_connectorId = 1, sc_botEnabled = False\<rparr>] \<and>
   envSet exampleServices \<and>
   filter isUninstall (trace (cleanupSlackConnector exampleServices exampleDb 1)) =
     [SlackAppsUninstall ''token''] \<and>
   filter isConnectionDeletion (trace (cleanupSlackConnector exampleServices exampleDb 1)) =
     [NangoDeleteConnection ''conn-1''] \<and>
   \<not> envSet unsetClientIdServices \<and>
   isl (result (cleanupSlackConnector unsetClientIdServices exampleDb 1)) \<and>
   findConnector exampleDb 2 = Some (mkConnector 2 ''conn-2'') \<and>
   findConfiguration exampleDb 2 = Some \<lparr>sc_id = 2, sc_slackTeamId = ''T2'', sc_connectorId = 2, sc_botEnabled = False\<rparr> \<and>
   siblingOfTeam exampleDb 2 ''T2'' \<and>
   filter isUninstall (trace (cleanupSlackConnector exampleServices exampleDb 2)) = [] \<and>
   filter isConnectionDeletion (trace (cleanupSlackConnector exampleServices exampleDb 2)) = [] \<and>
   rowsOf (store (cleanupSlackConnector exampleServices exampleDb 2)) 3 = rowsOf exampleDb 3"
proof -
  note ex = example_cleanup
  have t1: "findTeamConfigurations exampleDb (sc_slackTeamId \<lparr>sc_id = 1, sc_slackTeamId = ''T1'', sc_connectorId = 1, sc_botEnabled = False\<rparr>) = [\<lparr>sc_id = 1, sc_slackTeamId = ''T1'', sc_connectorId = 1, sc_botEnabled = False\<rparr>]"
    using ex(3) by simp
  have s2: "siblingOfTeam exampleDb 2 (sc_slackTeamId \<lparr>sc_id = 2, sc_slackTeamId = ''T2'', sc_connectorId = 2, sc_botEnabled = False\<rparr>)"
    using ex(6) by simp
  have sv: "getAccessToken exampleServices ''conn-1'' = ''token''"
    "un_ok (slackAppsUninstall exampleServices ''token'')"
    by (simp_all add: exampleServices_def)
  from cleanupSlackConnector_revoke [OF ex(1,2), of exampleServices] t1 example_env(1) sv
  have one: "filter isUninstall (trace (cleanupSlackConnector exampleServices exampleDb 1)) =
       [SlackAppsUninstall ''token''] \<and>
     filter isConnectionDeletion (trace (cleanupSlackConnector exampleServices exampleDb 1)) =
       [NangoDeleteConnection ''conn-1'']"
    by (simp add: mkConnector_def)
  from cleanupSlackConnector_revoke [OF ex(1,2), of unsetClientIdServices] t1 example_env(4)
  have unset: "isl (result (cleanupSlackConnector unsetClientIdServices exampleDb 1))"
    by simp
  from cleanupSlackConnector_revoke [OF ex(4,5), of exampleServices] s2
  have two: "filter isUninstall (trace (cleanupSlackConnector exampleServices exampleDb 2)) = [] \<and>
     filter isConnectionDeletion (trace (cleanupSlackConnector exampleServices exampleDb 2)) = [] \<and>
     rowsOf (store (cleanupSlackConnector exampleServices exampleDb 2)) 3 = rowsOf exampleDb 3"
    by simp
  from ex(1-6) example_env(1,4) one unset two show ?thesis by simp
qed

text \<open>
  On the concrete store, for connector 1, whose SlackConfiguration is the only one of team
  T1: with \<^verbatim>\<open>SLACK_CLIENT_ID\<close> unset the call issues no uninstall and no deletion of a
  connection; with an uninstall that fails it issues the uninstall and no deletion of the
  connection.
\<close>

theorem cleanupSlackConnector_revoke_counterexample:
  "findTeamConfigurations exampleDb ''T1'' = [\<lparr>sc_id = 1, sc_slackTeamId = ''T1'', sc_connectorId = 1, sc_botEnabled = False\<rparr>] \<and>
   filter isUninstall (trace (cleanupSlackConnector unsetClientIdServices exampleDb 1)) = [] \<and>
   filter isConnectionDeletion (trace (cleanupSlackConnector unsetClientIdServices exampleDb 1)) = [] \<and>
   filter isUninstall (trace (cleanupSlackConnector failedUninstallServices exampleDb 1)) =
     [SlackAppsUninstall ''token''] \<and>
   filter isConnectionDeletion (trace (cleanupSlackConnector failedUninstallServices exampleDb 1)) = []"
  by (simp add: cleanupSlackConnector_def deactivateSlackApp_def findConnector_def
        findConfiguration_def findTeamConfigurations_def isUninstall_def
        isConnectionDeletion_def unsetClientIdServices_def failedUninstallServices_def
        exampleServices_def exampleDb_def mkConnector_def truthy_def)





subsection \<open>Setting permissions\<close>

lemma lookupChannel_cases:
  "chs k = None \<Longrightarrow> lookupChannel chs k = (if k \<in> set objectPrototypeMembers then InheritedMember else Undefined)"
  "chs k = Some c \<Longrightarrow> lookupChannel chs k = Row c"
  by (simp_all add: lookupChannel_def)

lemma entryRow_None: "chs (fst e) = None \<Longrightarrow> entryRow chs e = (\<lambda>r. r)"
  by (auto simp: entryRow_def)

lemma entryRow_Some:
  "chs (fst e) = Some c \<Longrightarrow>
     entryRow chs e =
       (\<lambda>r. if ch_permission c \<noteq> snd e \<and> ch_id r = ch_id c then r\<lparr>ch_permission := snd e\<rparr> else r)"
  by (auto simp: entryRow_def)

lemma processEntry_store:
  "b_store (processEntry sv cid chs e st) =
     (b_store st)\<lparr>slackChannels := map (entryRow chs e) (slackChannels (b_store st))\<rparr>"
proof (cases "chs (fst e)")
  case None
  then show ?thesis
    by (simp add: processEntry_def lookupChannel_cases reject_def entryRow_None split: option.splits)
next
  case (Some c)
  then show ?thesis
    by (auto simp: processEntry_def lookupChannel_cases runTask_def Let_def reject_def entryRow_Some
          setPermissionRow_def split: option.splits)
qed

lemma processEntry_trace:
  "b_trace (processEntry sv cid chs e st) = b_trace st @ entryEvents sv cid chs e"
proof (cases "chs (fst e)")
  case None
  then show ?thesis
    by (simp add: processEntry_def lookupChannel_cases reject_def entryEvents_def split: option.splits)
next
  case (Some c)
  then show ?thesis
    by (auto simp: processEntry_def lookupChannel_cases runTask_def Let_def reject_def entryEvents_def
          gainsRead_def split: option.splits)
qed

lemma processEntry_rejections:
  "b_rejections (processEntry sv cid chs e st) = b_rejections st @ entryRejections sv cid chs e"
proof (cases "chs (fst e)")
  case None
  then show ?thesis
    by (simp add: processEntry_def lookupChannel_cases reject_def entryRejections_def
          entryRejection_def)
next
  case (Some c)
  then show ?thesis
    by (auto simp: processEntry_def lookupChannel_cases runTask_def Let_def reject_def
          entryRejections_def entryRejection_def gainsRead_def split: option.splits)
qed

lemma processEntry_gc:
  "shouldGarbageCollect (processEntry sv cid chs e st) =
     (shouldGarbageCollect st \<or> losesRead chs e)"
proof (cases "chs (fst e)")
  case None
  then show ?thesis
    by (simp add: processEntry_def lookupChannel_cases reject_def losesRead_def split: option.splits)
next
  case (Some c)
  then show ?thesis
    by (auto simp: processEntry_def lookupChannel_cases runTask_def Let_def reject_def losesRead_def
          split: option.splits)
qed


text \<open>The loop as a whole.\<close>

lemma rowAfter_Cons: "rowAfter chs (e # es) = rowAfter chs es \<circ> entryRow chs e"
  by (rule ext) simp

lemma rowAfter_Nil: "rowAfter chs [] = (\<lambda>r. r)"
  by (rule ext) simp

lemma processEntries_store:
  "b_store (processEntries sv cid chs es st) =
     (b_store st)\<lparr>slackChannels := map (rowAfter chs es) (slackChannels (b_store st))\<rparr>"
proof (induction es arbitrary: st)
  case Nil
  show ?case by (simp add: rowAfter_Nil)
next
  case (Cons e es)
  show ?case by (simp add: Cons.IH processEntry_store rowAfter_Cons)
qed

lemma processEntries_trace:
  "b_trace (processEntries sv cid chs es st) =
     b_trace st @ concat (map (entryEvents sv cid chs) es)"
  by (induction es arbitrary: st) (simp_all add: processEntry_trace)

lemma processEntries_rejections:
  "b_rejections (processEntries sv cid chs es st) = b_rejections st @ rejectionsOf sv cid chs es"
  by (induction es arbitrary: st) (simp_all add: processEntry_rejections rejectionsOf_def)

lemma rejectionsOf_Nil: "rejectionsOf sv cid chs es = [] \<longleftrightarrow> tasksSucceed sv cid chs es"
  by (auto simp: rejectionsOf_def tasksSucceed_def entryRejections_def split: option.splits)

lemma applyWrites_rowAfter: "applyWrites chs es rows = map (rowAfter chs es) rows"
proof (induction es arbitrary: rows)
  case Nil
  show ?case by (simp add: rowAfter_Nil)
next
  case (Cons e es)
  show ?case
  proof (cases "chs (fst e)")
    case None
    then show ?thesis by (simp add: Cons.IH rowAfter_Cons entryRow_None)
  next
    case (Some c)
    then show ?thesis
      by (auto simp: Cons.IH rowAfter_Cons entryRow_Some setPermissionRow_def)
  qed
qed

lemma processEntries_gc:
  "shouldGarbageCollect (processEntries sv cid chs es st) =
     (shouldGarbageCollect st \<or> (\<exists>e \<in> set es. losesRead chs e))"
  by (induction es arbitrary: st) (auto simp: processEntry_gc)

text \<open>The outcome of a call whose connector and configuration exist.\<close>

lemma finishBatch_store:
  "store (finishBatch sv d cid chs perms st) =
     (case b_rejections st of
        [] \<Rightarrow> b_store st
      | r # rs \<Rightarrow>
          d\<lparr>slackChannels :=
              map (rowAfter chs
                     (filter (\<lambda>entry. fst entry = fst ((r # rs) ! (rejectsFirst sv mod length (r # rs))) \<or>
                                      landedAtReturn sv (fst entry)) perms))
                (slackChannels d)\<rparr>)"
  by (simp add: finishBatch_def Let_def applyWrites_rowAfter split: option.splits list.splits)

lemma finishBatch_trace:
  "trace (finishBatch sv d cid chs perms st) =
     b_trace st @ (if b_rejections st = [] \<and> shouldGarbageCollect st
                   then [LaunchSlackGarbageCollectWorkflow cid] else [])"
  by (simp add: finishBatch_def Let_def split: option.splits list.splits)

lemma finishBatch_result:
  "isl (result (finishBatch sv d cid chs perms st)) \<longleftrightarrow>
     b_rejections st \<noteq> [] \<or>
     (shouldGarbageCollect st \<and> launchSlackGarbageCollectWorkflow sv cid \<noteq> None)"
  by (auto simp: finishBatch_def Let_def split: option.splits list.splits)

lemma set_found:
  assumes "findConnector d cid = Some connector"
      and "findConfiguration d cid = Some configuration"
  shows "store (setSlackConnectorPermissions sv d cid perms) =
           d\<lparr>slackChannels :=
               map (rowAfter (channelsOf d cid perms)
                      (writesAtReturn sv cid (channelsOf d cid perms) perms))
                 (slackChannels d)\<rparr>"
    and "trace (setSlackConnectorPermissions sv d cid perms) =
           b_trace (startBatch d) @ concat (map (entryEvents sv cid (channelsOf d cid perms)) perms) @
           (if tasksSucceed sv cid (channelsOf d cid perms) perms \<and>
               (\<exists>e \<in> set perms. losesRead (channelsOf d cid perms) e)
            then [LaunchSlackGarbageCollectWorkflow cid] else [])"
    and "isl (result (setSlackConnectorPermissions sv d cid perms)) \<longleftrightarrow>
           \<not> tasksSucceed sv cid (channelsOf d cid perms) perms \<or>
           ((\<exists>e \<in> set perms. losesRead (channelsOf d cid perms) e) \<and>
            launchSlackGarbageCollectWorkflow sv cid \<noteq> None)"
proof -
  let ?chs = "channelsOf d cid perms"
  have unf: "setSlackConnectorPermissions sv d cid perms =
      finishBatch sv d cid ?chs perms (processEntries sv cid ?chs perms (startBatch d))"
    using assms by (simp add: setSlackConnectorPermissions_def)
  have b: "b_store (startBatch d) = d" "b_rejections (startBatch d) = []"
          "shouldGarbageCollect (startBatch d) = False"
    by (simp_all add: startBatch_def)
  have r: "b_rejections (processEntries sv cid ?chs perms (startBatch d)) =
             rejectionsOf sv cid ?chs perms"
    by (simp add: processEntries_rejections b)
  show "store (setSlackConnectorPermissions sv d cid perms) =
           d\<lparr>slackChannels :=
               map (rowAfter ?chs (writesAtReturn sv cid ?chs perms)) (slackChannels d)\<rparr>"
    by (simp add: unf finishBatch_store r processEntries_store b writesAtReturn_def
          split: list.splits)
  show "trace (setSlackConnectorPermissions sv d cid perms) =
           b_trace (startBatch d) @ concat (map (entryEvents sv cid ?chs) perms) @
           (if tasksSucceed sv cid ?chs perms \<and> (\<exists>e \<in> set perms. losesRead ?chs e)
            then [LaunchSlackGarbageCollectWorkflow cid] else [])"
    by (simp add: unf finishBatch_trace processEntries_trace r rejectionsOf_Nil
          processEntries_gc b)
  show "isl (result (setSlackConnectorPermissions sv d cid perms)) \<longleftrightarrow>
           \<not> tasksSucceed sv cid ?chs perms \<or>
           ((\<exists>e \<in> set perms. losesRead ?chs e) \<and>
            launchSlackGarbageCollectWorkflow sv cid \<noteq> None)"
    by (simp add: unf finishBatch_result r rejectionsOf_Nil processEntries_gc b)
qed

lemma set_not_found:
  assumes "findConnector d cid = None \<or> findConfiguration d cid = None"
  shows "store (setSlackConnectorPermissions sv d cid perms) = d"
    and "filter isLaunch (trace (setSlackConnectorPermissions sv d cid perms)) = []"
    and "filter isDbUpdate (trace (setSlackConnectorPermissions sv d cid perms)) = []"
  using assms
  by (auto simp: setSlackConnectorPermissions_def isLaunch_def isDbUpdate_def split: option.splits)


text \<open>The rows of the batch, and the launches of a call.\<close>

lemma reduceChannels_Some:
  "reduceChannels acc rows k = Some c \<Longrightarrow>
     acc k = Some c \<or> (c \<in> set rows \<and> ch_slackChannelId c = k)"
proof (induction rows arbitrary: acc)
  case Nil
  then show ?case by simp
next
  case (Cons a rows)
  from Cons.prems have "reduceChannels (acc(ch_slackChannelId a \<mapsto> a)) rows k = Some c"
    by simp
  from Cons.IH [OF this]
  show ?case by (auto split: if_splits)
qed

lemma channelsOf_Some:
  assumes "channelsOf d cid perms k = Some c"
  shows "c \<in> set (slackChannels d)" and "ch_connectorId c = cid" and "ch_slackChannelId c = k"
  using reduceChannels_Some [OF assms [unfolded channelsOf_def]]
  by (auto simp: findChannels_def)

lemma events_other_key:
  assumes "\<And>k' c. chs k' = Some c \<Longrightarrow> ch_slackChannelId c = k'"
      and "fst e \<noteq> k"
  shows "filter (\<lambda>x. x = LaunchSlackBotJoinedWorkflow cid k) (entryEvents sv cid chs e) = []"
  using assms
  by (auto simp: entryEvents_def lookupChannel_def split: option.splits)

lemma events_gaining_key:
  assumes "chs k = Some c" and "ch_slackChannelId c = k" and "gainsRead chs (k, p)"
  shows "filter (\<lambda>x. x = LaunchSlackBotJoinedWorkflow cid k) (entryEvents sv cid chs (k, p)) =
           [LaunchSlackBotJoinedWorkflow cid k]"
  using assms
  by (auto simp: entryEvents_def lookupChannel_def gainsRead_def)

lemma events_bot_join:
  assumes keyed: "\<And>k' c. chs k' = Some c \<Longrightarrow> ch_slackChannelId c = k'"
      and "distinct (map fst es)" and "(k, p) \<in> set es" and "gainsRead chs (k, p)"
  shows "filter (\<lambda>x. x = LaunchSlackBotJoinedWorkflow cid k)
           (concat (map (entryEvents sv cid chs) es)) = [LaunchSlackBotJoinedWorkflow cid k]"
  using assms(2-)
proof (induction es)
  case Nil
  then show ?case by simp
next
  case (Cons e es)
  show ?case
  proof (cases "e = (k, p)")
    case True
    from Cons.prems(1) True have "\<forall>e' \<in> set es. fst e' \<noteq> k" by force
    then have rest: "filter (\<lambda>x. x = LaunchSlackBotJoinedWorkflow cid k)
           (concat (map (entryEvents sv cid chs) es)) = []"
      by (induction es) (simp_all add: events_other_key [OF keyed])
    from Cons.prems(3) obtain c where c: "chs k = Some c"
      by (auto simp: gainsRead_def split: option.splits)
    from events_gaining_key [OF c keyed [OF c] Cons.prems(3)] rest True
    show ?thesis by simp
  next
    case False
    with Cons.prems have in_rest: "(k, p) \<in> set es" by simp
    then have "k \<in> fst ` set es" by force
    with Cons.prems(1) have "fst e \<noteq> k" by auto
    then have "filter (\<lambda>x. x = LaunchSlackBotJoinedWorkflow cid k) (entryEvents sv cid chs e) = []"
      by (simp add: events_other_key [OF keyed])
    moreover from Cons.prems(1) have "distinct (map fst es)" by simp
    ultimately show ?thesis using Cons.IH in_rest Cons.prems(3) by simp
  qed
qed

lemma events_no_gc:
  "filter isGarbageCollect (concat (map (entryEvents sv cid chs) es)) = []"
  by (induction es)
     (auto simp: entryEvents_def isGarbageCollect_def split: channel_lookup.splits)

lemma startBatch_no_gc: "filter isGarbageCollect (b_trace (startBatch d)) = []"
  by (simp add: startBatch_def isGarbageCollect_def)

lemma startBatch_no_bot_join:
  "filter (\<lambda>x. x = LaunchSlackBotJoinedWorkflow cid k) (b_trace (startBatch d)) = []"
  by (simp add: startBatch_def)

text \<open>
  Claim C2, as the code has it. Let the connector and its configuration exist, and take an
  entry of the batch whose channel row is found and whose permission differs from the
  stored one. If the permission goes from "no read" to "read", exactly one bot-join
  workflow is launched for that channel, and if that launch returns an error the call
  returns an error and launches no garbage collection. If the permission goes from "read"
  to "no read" and no task of the call fails, the garbage collection is launched once, as
  the last step of the call, after every update; if a task of the call fails, the call
  returns an error and the garbage collection is not launched.
\<close>

theorem setSlackConnectorPermissions_transitions:
  assumes "findConnector d connectorId = Some connector"
      and "findConfiguration d connectorId = Some configuration"
      and "distinct (map fst permissions)"
      and "(k, p) \<in> set permissions"
      and "channelsOf d connectorId permissions k = Some ch"
      and "ch_permission ch \<noteq> p"
  shows "(\<not> includesRead (ch_permission ch) \<and> includesRead p \<longrightarrow>
            filter (\<lambda>e. e = LaunchSlackBotJoinedWorkflow connectorId k)
              (trace (setSlackConnectorPermissions sv d connectorId permissions)) =
              [LaunchSlackBotJoinedWorkflow connectorId k] \<and>
            (launchSlackBotJoinedWorkflow sv connectorId k \<noteq> None \<longrightarrow>
               isl (result (setSlackConnectorPermissions sv d connectorId permissions)) \<and>
               filter isGarbageCollect
                 (trace (setSlackConnectorPermissions sv d connectorId permissions)) = [])) \<and>
         (includesRead (ch_permission ch) \<and> \<not> includesRead p \<longrightarrow>
            (tasksSucceed sv connectorId (channelsOf d connectorId permissions) permissions \<longrightarrow>
               (\<exists>before.
                  trace (setSlackConnectorPermissions sv d connectorId permissions) =
                    before @ [LaunchSlackGarbageCollectWorkflow connectorId] \<and>
                  filter isGarbageCollect before = [])) \<and>
            (\<not> tasksSucceed sv connectorId (channelsOf d connectorId permissions) permissions \<longrightarrow>
               isl (result (setSlackConnectorPermissions sv d connectorId permissions)) \<and>
               filter isGarbageCollect
                 (trace (setSlackConnectorPermissions sv d connectorId permissions)) = []))"
proof -
  let ?chs = "channelsOf d connectorId permissions"
  let ?X = "setSlackConnectorPermissions sv d connectorId permissions"
  note found = set_found [OF assms(1,2), of sv permissions]
  have keyed: "\<And>k' c. ?chs k' = Some c \<Longrightarrow> ch_slackChannelId c = k'"
    by (rule channelsOf_Some(3))
  have failed: "\<not> tasksSucceed sv connectorId ?chs permissions \<Longrightarrow>
      isl (result ?X) \<and> filter isGarbageCollect (trace ?X) = []"
    by (simp add: found events_no_gc startBatch_no_gc)
  have gain: "filter (\<lambda>e. e = LaunchSlackBotJoinedWorkflow connectorId k) (trace ?X) =
                [LaunchSlackBotJoinedWorkflow connectorId k]"
    if g: "\<not> includesRead (ch_permission ch) \<and> includesRead p"
  proof -
    from g assms(5) have "gainsRead ?chs (k, p)" by (simp add: gainsRead_def)
    from events_bot_join [OF keyed assms(3,4) this]
    show ?thesis by (simp add: found startBatch_no_bot_join)
  qed
  have gain_err: "\<not> tasksSucceed sv connectorId ?chs permissions"
    if g: "\<not> includesRead (ch_permission ch) \<and> includesRead p"
      and e: "launchSlackBotJoinedWorkflow sv connectorId k \<noteq> None"
  proof -
    from g assms(5) keyed [OF assms(5)] e
    have "entryRejection sv connectorId ?chs (k, p) \<noteq> None"
      by (simp add: entryRejection_def lookupChannel_def gainsRead_def)
    with assms(4) show ?thesis by (auto simp: tasksSucceed_def)
  qed
  have loss: "\<exists>before. trace ?X = before @ [LaunchSlackGarbageCollectWorkflow connectorId] \<and>
                filter isGarbageCollect before = []"
    if l: "includesRead (ch_permission ch) \<and> \<not> includesRead p"
      and ok: "tasksSucceed sv connectorId ?chs permissions"
  proof -
    from l assms(5) have "losesRead ?chs (k, p)" by (simp add: losesRead_def)
    with assms(4) have "\<exists>e \<in> set permissions. losesRead ?chs e" by blast
    with ok have "trace ?X =
        (b_trace (startBatch d) @ concat (map (entryEvents sv connectorId ?chs) permissions)) @
        [LaunchSlackGarbageCollectWorkflow connectorId]"
      by (simp add: found)
    moreover have "filter isGarbageCollect
        (b_trace (startBatch d) @ concat (map (entryEvents sv connectorId ?chs) permissions)) = []"
      by (simp add: events_no_gc startBatch_no_gc)
    ultimately show ?thesis by blast
  qed
  from gain gain_err loss failed show ?thesis by blast
qed

lemma example_batch:
  "findConnector exampleDb 1 = Some (mkConnector 1 ''conn-1'')"
  "findConfiguration exampleDb 1 =
     Some \<lparr>sc_id = 1, sc_slackTeamId = ''T1'', sc_connectorId = 1, sc_botEnabled = False\<rparr>"
  "distinct (map fst [(''D'', PRead), (''A'', PNone)])"
  "channelsOf exampleDb 1 [(''D'', PRead), (''A'', PNone)] ''D'' = Some (mkChannel 4 1 ''D'' PNone 40)"
  "channelsOf exampleDb 1 [(''D'', PRead), (''A'', PNone)] ''A'' = Some (mkChannel 1 1 ''A'' PRead 10)"
  by (simp_all add: findConnector_def findConfiguration_def channelsOf_def findChannels_def
        exampleDb_def mkConnector_def mkChannel_def)

lemma example_batch_tasks:
  "tasksSucceed exampleServices 1 (channelsOf exampleDb 1 [(''D'', PRead), (''A'', PNone)])
     [(''D'', PRead), (''A'', PNone)]"
  "\<not> tasksSucceed failedBotJoinServices 1 (channelsOf exampleDb 1 [(''D'', PRead), (''A'', PNone)])
     [(''D'', PRead), (''A'', PNone)]"
  "launchSlackBotJoinedWorkflow failedBotJoinServices 1 ''D'' \<noteq> None"
  by (simp_all add: tasksSucceed_def entryRejection_def lookupChannel_def gainsRead_def
        includesRead_def channelsOf_def findChannels_def exampleDb_def mkChannel_def
        exampleServices_def failedBotJoinServices_def)

theorem setSlackConnectorPermissions_transitions_witness:
  "\<not> includesRead PNone \<and> includesRead PRead \<and>
   filter (\<lambda>e. e = LaunchSlackBotJoinedWorkflow 1 ''D'')
     (trace (setSlackConnectorPermissions exampleServices exampleDb 1 [(''D'', PRead), (''A'', PNone)])) =
     [LaunchSlackBotJoinedWorkflow 1 ''D''] \<and>
   launchSlackBotJoinedWorkflow failedBotJoinServices 1 ''D'' \<noteq> None \<and>
   isl (result (setSlackConnectorPermissions failedBotJoinServices exampleDb 1
                  [(''D'', PRead), (''A'', PNone)])) \<and>
   (\<exists>before.
      trace (setSlackConnectorPermissions exampleServices exampleDb 1 [(''D'', PRead), (''A'', PNone)]) =
        before @ [LaunchSlackGarbageCollectWorkflow 1] \<and>
      filter isGarbageCollect before = []) \<and>
   filter isGarbageCollect
     (trace (setSlackConnectorPermissions failedBotJoinServices exampleDb 1
               [(''D'', PRead), (''A'', PNone)])) = []"
proof -
  have r: "\<not> includesRead PNone" "includesRead PRead"
    by (simp_all add: includesRead_def)
  have m: "(''D'', PRead) \<in> set [(''D'', PRead), (''A'', PNone)]"
          "(''A'', PNone) \<in> set [(''D'', PRead), (''A'', PNone)]"
    by simp_all
  have dD: "ch_permission (mkChannel 4 1 ''D'' PNone 40) \<noteq> PRead"
    and pD: "ch_permission (mkChannel 4 1 ''D'' PNone 40) = PNone"
    and dA: "ch_permission (mkChannel 1 1 ''A'' PRead 10) \<noteq> PNone"
    and pA: "ch_permission (mkChannel 1 1 ''A'' PRead 10) = PRead"
    by (simp_all add: mkChannel_def)
  note gain = setSlackConnectorPermissions_transitions
    [OF example_batch(1,2,3) m(1) example_batch(4) dD, unfolded pD]
  note loss = setSlackConnectorPermissions_transitions
    [OF example_batch(1,2,3) m(2) example_batch(5) dA, unfolded pA]
  from r gain [of exampleServices] gain [of failedBotJoinServices]
    loss [of exampleServices] loss [of failedBotJoinServices] example_batch_tasks
  show ?thesis by blast
qed

text \<open>
  On the concrete store, with a bot-join launch that fails: the batch takes channel A from
  "read" to "none" and channel D from "none" to "read". The row of A is updated and the
  flag raised before the launch for D fails; the call returns the error of the launch, and
  no garbage collection is launched.
\<close>

theorem setSlackConnectorPermissions_transitions_counterexample:
  "channelsOf exampleDb 1 [(''A'', PNone), (''D'', PRead)] ''A'' = Some (mkChannel 1 1 ''A'' PRead 10) \<and>
   includesRead (ch_permission (mkChannel 1 1 ''A'' PRead 10)) \<and> \<not> includesRead PNone \<and>
   map ch_permission
     (slackChannels (store (setSlackConnectorPermissions failedBotJoinServices exampleDb 1
                              [(''A'', PNone), (''D'', PRead)]))) =
     [PNone, PWrite, PReadWrite, PRead, PRead, PRead] \<and>
   result (setSlackConnectorPermissions failedBotJoinServices exampleDb 1
             [(''A'', PNone), (''D'', PRead)]) = Inl (External ''temporal unavailable'') \<and>
   trace (setSlackConnectorPermissions failedBotJoinServices exampleDb 1
            [(''A'', PNone), (''D'', PRead)]) =
     [DbRead ConnectorT NoTransaction, DbRead SlackConfigurationT NoTransaction,
      DbRead SlackChannelT NoTransaction,
      DbUpdate SlackChannelT 1 NoTransaction,
      DbUpdate SlackChannelT 4 NoTransaction, LaunchSlackBotJoinedWorkflow 1 ''D'']"
  by (simp add: setSlackConnectorPermissions_def finishBatch_def startBatch_def
        processEntry_def runTask_def reject_def lookupChannel_def setPermissionRow_def
        includesRead_def channelsOf_def findChannels_def findConnector_def
        findConfiguration_def exampleDb_def mkConnector_def mkChannel_def
        failedBotJoinServices_def exampleServices_def)

lemma entryRow_fields:
  "ch_id (entryRow chs e r) = ch_id r"
  "ch_connectorId (entryRow chs e r) = ch_connectorId r"
  "ch_slackChannelId (entryRow chs e r) = ch_slackChannelId r"
  by (simp_all add: entryRow_def split: option.splits)

lemma rowAfter_fields:
  "ch_id (rowAfter chs es r) = ch_id r"
  "ch_connectorId (rowAfter chs es r) = ch_connectorId r"
  "ch_slackChannelId (rowAfter chs es r) = ch_slackChannelId r"
  by (induction es arbitrary: r) (simp_all add: entryRow_fields)

lemma reduceChannels_map:
  assumes "\<And>r. ch_slackChannelId (G r) = ch_slackChannelId r"
  shows "reduceChannels (map_option G \<circ> acc) (map G rows) = map_option G \<circ> reduceChannels acc rows"
proof (induction rows arbitrary: acc)
  case Nil
  show ?case by simp
next
  case (Cons c rows)
  have upd: "(map_option G \<circ> acc)(ch_slackChannelId (G c) \<mapsto> G c) =
          map_option G \<circ> (acc(ch_slackChannelId c \<mapsto> c))"
    by (rule ext) (simp add: assms)
  have "reduceChannels (map_option G \<circ> acc) (map G (c # rows)) =
          reduceChannels ((map_option G \<circ> acc)(ch_slackChannelId (G c) \<mapsto> G c)) (map G rows)"
    by (simp only: list.map reduceChannels.simps)
  also have "\<dots> = reduceChannels (map_option G \<circ> (acc(ch_slackChannelId c \<mapsto> c))) (map G rows)"
    by (simp only: upd)
  also have "\<dots> = map_option G \<circ> reduceChannels (acc(ch_slackChannelId c \<mapsto> c)) rows"
    by (rule Cons.IH)
  also have "\<dots> = map_option G \<circ> reduceChannels acc (c # rows)"
    by (simp only: reduceChannels.simps)
  finally show ?case .
qed

lemma findChannels_map:
  assumes "\<And>r. ch_slackChannelId (G r) = ch_slackChannelId r"
      and "\<And>r. ch_connectorId (G r) = ch_connectorId r"
  shows "findChannels (d\<lparr>slackChannels := map G (slackChannels d)\<rparr>) cid perms =
           map G (findChannels d cid perms)"
  by (simp add: findChannels_def filter_map comp_def assms)

lemma channelsOf_after:
  "channelsOf (d\<lparr>slackChannels := map (rowAfter chs es) (slackChannels d)\<rparr>) cid perms =
     map_option (rowAfter chs es) \<circ> channelsOf d cid perms"
proof -
  have "reduceChannels (map_option (rowAfter chs es) \<circ> Map.empty)
          (map (rowAfter chs es) (findChannels d cid perms)) =
        map_option (rowAfter chs es) \<circ> reduceChannels Map.empty (findChannels d cid perms)"
    by (rule reduceChannels_map) (rule rowAfter_fields)
  then show ?thesis
    by (simp add: channelsOf_def findChannels_map rowAfter_fields)
qed

text \<open>A row is touched only by the entry of its own channel.\<close>

lemma entryRow_other:
  assumes pk: "inj_on ch_id rows"
      and rows: "\<And>k' c. chs k' = Some c \<Longrightarrow> c \<in> rows \<and> ch_slackChannelId c = k'"
      and r: "r \<in> rows" "ch_id r' = ch_id r"
      and other: "fst e \<noteq> ch_slackChannelId r"
  shows "entryRow chs e r' = r'"
proof (cases "chs (fst e)")
  case None
  then show ?thesis by (simp add: entryRow_def)
next
  case (Some c)
  from rows [OF Some] other have "c \<in> rows" "c \<noteq> r" by auto
  with pk r have "ch_id c \<noteq> ch_id r'" by (auto dest: inj_onD)
  with Some show ?thesis by (simp add: entryRow_def)
qed

lemma rowAfter_other:
  assumes pk: "inj_on ch_id rows"
      and rows: "\<And>k' c. chs k' = Some c \<Longrightarrow> c \<in> rows \<and> ch_slackChannelId c = k'"
      and r: "r \<in> rows" "ch_id r' = ch_id r"
      and other: "\<forall>e \<in> set es. fst e \<noteq> ch_slackChannelId r"
  shows "rowAfter chs es r' = r'"
  using other
  by (induction es) (simp_all add: entryRow_other [OF pk rows r])

lemma rowAfter_own:
  assumes pk: "inj_on ch_id rows"
      and rows: "\<And>k' c. chs k' = Some c \<Longrightarrow> c \<in> rows \<and> ch_slackChannelId c = k'"
      and r: "chs k = Some r"
      and es: "distinct (map fst es)" "(k, p) \<in> set es"
      and r': "ch_id r' = ch_id r" "ch_permission r' = ch_permission r"
  shows "ch_permission (rowAfter chs es r') = p"
  using es r'
proof (induction es arbitrary: r')
  case Nil
  then show ?case by simp
next
  case (Cons e es)
  from rows [OF r] have rin: "r \<in> rows" and rk: "ch_slackChannelId r = k" by simp_all
  show ?case
  proof (cases "e = (k, p)")
    case True
    from Cons.prems(1) True have rest: "\<forall>e' \<in> set es. fst e' \<noteq> ch_slackChannelId r"
      using rk by force
    have id': "ch_id (entryRow chs e r') = ch_id r" using Cons.prems(3) by (simp add: entryRow_fields)
    have "ch_permission (entryRow chs e r') = p"
      using True r Cons.prems(3,4) by (simp add: entryRow_def)
    with rowAfter_other [OF pk rows rin id' rest] show ?thesis by simp
  next
    case False
    with Cons.prems(2) have in_rest: "(k, p) \<in> set es" by simp
    then have "k \<in> fst ` set es" by force
    moreover from Cons.prems(1) have "fst e \<notin> fst ` set es" by simp
    ultimately have "fst e \<noteq> k" by metis
    then have "fst e \<noteq> ch_slackChannelId r" by (simp add: rk)
    from entryRow_other [OF pk rows rin Cons.prems(3) this]
    have "entryRow chs e r' = r'" .
    moreover from Cons.prems(1) have "distinct (map fst es)" by simp
    ultimately show ?thesis using Cons.IH [OF _ in_rest Cons.prems(3,4)] by simp
  qed
qed

text \<open>After a call, every entry of the batch finds its channel with the permission it asks for.\<close>

lemma settled_after:
  assumes "distinct (map ch_id (slackChannels d))" and "distinct (map fst perms)"
      and "e \<in> set perms"
      and "channelsOf (d\<lparr>slackChannels :=
              map (rowAfter (channelsOf d cid perms) perms) (slackChannels d)\<rparr>) cid perms (fst e) = Some c"
  shows "ch_permission c = snd e"
proof -
  let ?chs = "channelsOf d cid perms"
  from assms(4) obtain r where r: "?chs (fst e) = Some r" and c: "c = rowAfter ?chs perms r"
    by (auto simp: channelsOf_after)
  have pk: "inj_on ch_id (set (slackChannels d))"
    using assms(1) by (simp add: distinct_map)
  have rows: "\<And>k' c. ?chs k' = Some c \<Longrightarrow> c \<in> set (slackChannels d) \<and> ch_slackChannelId c = k'"
    by (simp add: channelsOf_Some)
  from assms(3) have "(fst e, snd e) \<in> set perms" by simp
  have "ch_permission (rowAfter ?chs perms r) = snd e"
  proof (rule rowAfter_own [where rows = "set (slackChannels d)" and k = "fst e" and r = r])
    show "inj_on ch_id (set (slackChannels d))" by (rule pk)
    show "\<And>k' c. ?chs k' = Some c \<Longrightarrow> c \<in> set (slackChannels d) \<and> ch_slackChannelId c = k'"
      by (rule rows)
    show "?chs (fst e) = Some r" by (rule r)
    show "distinct (map fst perms)" by (rule assms(2))
    show "(fst e, snd e) \<in> set perms" using assms(3) by simp
  qed simp_all
  with c show ?thesis by simp
qed

text \<open>A batch whose entries are all settled changes nothing and launches nothing.\<close>

lemma settled_rowAfter: "settled chs es \<Longrightarrow> rowAfter chs es = (\<lambda>r. r)"
proof (induction es)
  case Nil
  show ?case by (simp add: rowAfter_Nil)
next
  case (Cons e es)
  from Cons.prems have "entryRow chs e = (\<lambda>r. r)"
    by (auto simp: settled_def entryRow_def split: option.splits)
  moreover from Cons.prems have "settled chs es" by (simp add: settled_def)
  ultimately show ?case using Cons.IH by (simp add: rowAfter_Cons comp_def)
qed

lemma settled_events:
  assumes "settled chs es"
  shows "filter isLaunch (concat (map (entryEvents sv cid chs) es)) = []"
    and "filter isDbUpdate (concat (map (entryEvents sv cid chs) es)) = []"
  using assms
  by (induction es)
     (auto simp: settled_def entryEvents_def lookupChannel_def isLaunch_def isDbUpdate_def
           split: option.splits)

lemma settled_no_loss: "settled chs es \<Longrightarrow> \<not> (\<exists>e \<in> set es. losesRead chs e)"
  by (auto simp: settled_def losesRead_def split: option.splits)

lemma writesAtReturn_subset: "set (writesAtReturn sv cid chs es) \<subseteq> set es"
  by (auto simp: writesAtReturn_def split: list.splits)

lemma writesAtReturn_succeed:
  "tasksSucceed sv cid chs es \<Longrightarrow> writesAtReturn sv cid chs es = es"
  by (simp add: writesAtReturn_def rejectionsOf_Nil [symmetric])

lemma settled_subset: "settled chs es \<Longrightarrow> set es' \<subseteq> set es \<Longrightarrow> settled chs es'"
  by (auto simp: settled_def)

text \<open>
  Claim C5, as the code has it. Let the keys of the batch be distinct, as the keys of an
  object are, and the primary keys of the SlackChannel rows be distinct. If no task of a
  first application of the batch is rejected, as is the case when that application
  returns Ok, then applying the batch to the store it left gives that store again,
  launches no workflow and updates no row, whatever the services answer in the second
  call.
\<close>

theorem setSlackConnectorPermissions_idempotent:
  assumes "distinct (map fst permissions)"
      and "distinct (map ch_id (slackChannels d))"
      and "\<not> isl (result (setSlackConnectorPermissions sv d connectorId permissions)) \<or>
           tasksSucceed sv connectorId (channelsOf d connectorId permissions) permissions"
  shows "store (setSlackConnectorPermissions sv'
                  (store (setSlackConnectorPermissions sv d connectorId permissions))
                  connectorId permissions) =
           store (setSlackConnectorPermissions sv d connectorId permissions) \<and>
         filter isLaunch
           (trace (setSlackConnectorPermissions sv'
                     (store (setSlackConnectorPermissions sv d connectorId permissions))
                     connectorId permissions)) = [] \<and>
         filter isDbUpdate
           (trace (setSlackConnectorPermissions sv'
                     (store (setSlackConnectorPermissions sv d connectorId permissions))
                     connectorId permissions)) = []"
proof (cases "findConnector d connectorId = None \<or> findConfiguration d connectorId = None")
  case True
  note nf = set_not_found [OF True]
  from nf(1) [of sv permissions] nf [of sv' permissions]
  show ?thesis by simp
next
  case False
  then obtain connector configuration
    where c: "findConnector d connectorId = Some connector"
      and f: "findConfiguration d connectorId = Some configuration"
    by auto
  let ?chs = "channelsOf d connectorId permissions"
  let ?d1 = "d\<lparr>slackChannels := map (rowAfter ?chs permissions) (slackChannels d)\<rparr>"
  let ?chs1 = "channelsOf ?d1 connectorId permissions"
  from assms(3) set_found(3) [OF c f, of sv permissions]
  have ok: "tasksSucceed sv connectorId ?chs permissions" by blast
  have d1: "store (setSlackConnectorPermissions sv d connectorId permissions) = ?d1"
    by (simp add: set_found(1) [OF c f] writesAtReturn_succeed [OF ok])
  have c1: "findConnector ?d1 connectorId = Some connector"
    using c by (simp add: findConnector_def)
  have f1: "findConfiguration ?d1 connectorId = Some configuration"
    using f by (simp add: findConfiguration_def)
  have st: "settled ?chs1 permissions"
    unfolding settled_def using settled_after [OF assms(2,1)]
    by (auto split: option.splits)
  have st': "settled ?chs1 (writesAtReturn sv' connectorId ?chs1 permissions)"
    using st writesAtReturn_subset by (rule settled_subset)
  note again = set_found [OF c1 f1, of sv' permissions]
  have "store (setSlackConnectorPermissions sv' ?d1 connectorId permissions) = ?d1"
    by (simp add: again(1) settled_rowAfter [OF st'])
  moreover have "filter isLaunch (trace (setSlackConnectorPermissions sv' ?d1 connectorId permissions)) = []"
    using settled_no_loss [OF st]
    by (simp add: again(2) settled_events(1) [OF st] startBatch_def isLaunch_def)
  moreover have "filter isDbUpdate (trace (setSlackConnectorPermissions sv' ?d1 connectorId permissions)) = []"
    using settled_no_loss [OF st]
    by (simp add: again(2) settled_events(2) [OF st] startBatch_def isDbUpdate_def)
  ultimately show ?thesis by (simp add: d1)
qed

theorem setSlackConnectorPermissions_idempotent_witness:
  "distinct (map fst [(''D'', PRead), (''A'', PNone)]) \<and>
   distinct (map ch_id (slackChannels exampleDb)) \<and>
   \<not> isl (result (setSlackConnectorPermissions exampleServices exampleDb 1
                      [(''D'', PRead), (''A'', PNone)])) \<and>
   store (setSlackConnectorPermissions exampleServices
            (store (setSlackConnectorPermissions exampleServices exampleDb 1
                      [(''D'', PRead), (''A'', PNone)]))
            1 [(''D'', PRead), (''A'', PNone)]) =
     store (setSlackConnectorPermissions exampleServices exampleDb 1 [(''D'', PRead), (''A'', PNone)]) \<and>
   filter isLaunch
     (trace (setSlackConnectorPermissions exampleServices
               (store (setSlackConnectorPermissions exampleServices exampleDb 1
                         [(''D'', PRead), (''A'', PNone)]))
               1 [(''D'', PRead), (''A'', PNone)])) = []"
proof -
  have h1: "distinct (map fst [(''D'', PRead), (''A'', PNone)])"
    by simp
  have h2: "distinct (map ch_id (slackChannels exampleDb))"
    by (simp add: exampleDb_def mkChannel_def)
  have h3: "\<not> isl (result (setSlackConnectorPermissions exampleServices exampleDb 1
                             [(''D'', PRead), (''A'', PNone)]))"
    by (simp add: setSlackConnectorPermissions_def finishBatch_def startBatch_def
          processEntry_def runTask_def reject_def lookupChannel_def setPermissionRow_def
          includesRead_def channelsOf_def findChannels_def findConnector_def
          findConfiguration_def exampleDb_def mkConnector_def mkChannel_def
          exampleServices_def)
  from h3 have h3': "\<not> isl (result (setSlackConnectorPermissions exampleServices exampleDb 1
                             [(''D'', PRead), (''A'', PNone)])) \<or>
     tasksSucceed exampleServices 1 (channelsOf exampleDb 1 [(''D'', PRead), (''A'', PNone)])
       [(''D'', PRead), (''A'', PNone)]"
    by (rule disjI1)
  from setSlackConnectorPermissions_idempotent [OF h1 h2 h3', of exampleServices] h1 h2 h3
  show ?thesis by blast
qed

text \<open>
  On the concrete store, with a bot-join launch that fails and a write that has not landed
  when the function returns: the first application of the batch takes channel D to "read",
  its launch fails and the call returns the error while the write for channel A is
  pending. The second application, on the store the first one returned with, updates the
  row of A and launches the garbage collection.
\<close>

theorem setSlackConnectorPermissions_idempotent_counterexample:
  "isl (result (setSlackConnectorPermissions pendingWriteServices exampleDb 1
                  [(''D'', PRead), (''A'', PNone)])) \<and>
   map ch_permission
     (slackChannels (store (setSlackConnectorPermissions pendingWriteServices exampleDb 1
                              [(''D'', PRead), (''A'', PNone)]))) =
     [PRead, PWrite, PReadWrite, PRead, PRead, PRead] \<and>
   map ch_permission
     (slackChannels (store (setSlackConnectorPermissions exampleServices
        (store (setSlackConnectorPermissions pendingWriteServices exampleDb 1
                  [(''D'', PRead), (''A'', PNone)]))
        1 [(''D'', PRead), (''A'', PNone)]))) =
     [PNone, PWrite, PReadWrite, PRead, PRead, PRead] \<and>
   trace (setSlackConnectorPermissions exampleServices
        (store (setSlackConnectorPermissions pendingWriteServices exampleDb 1
                  [(''D'', PRead), (''A'', PNone)]))
        1 [(''D'', PRead), (''A'', PNone)]) =
     [DbRead ConnectorT NoTransaction, DbRead SlackConfigurationT NoTransaction,
      DbRead SlackChannelT NoTransaction,
      DbUpdate SlackChannelT 1 NoTransaction, LaunchSlackGarbageCollectWorkflow 1]"
  by (simp add: setSlackConnectorPermissions_def finishBatch_def startBatch_def
        processEntry_def runTask_def reject_def lookupChannel_def setPermissionRow_def
        includesRead_def channelsOf_def findChannels_def findConnector_def
        findConfiguration_def exampleDb_def mkConnector_def mkChannel_def
        pendingWriteServices_def failedBotJoinServices_def exampleServices_def)

text \<open>
  An id with no row that is not the name of a member of \<^verbatim>\<open>Object.prototype\<close> is
  skipped: the call does to the store what it does without the entry, it returns Ok
  exactly when it does without the entry, and the id is logged.
\<close>

lemma rowAfter_append: "rowAfter chs (xs @ ys) r = rowAfter chs ys (rowAfter chs xs r)"
  by (induction xs arbitrary: r) simp_all

lemma unknown_id_skipped:
  assumes c: "findConnector d cid = Some connector"
      and f: "findConfiguration d cid = Some configuration"
      and member: "k \<notin> set objectPrototypeMembers"
      and norow: "\<forall>r \<in> set (slackChannels d). \<not> (ch_connectorId r = cid \<and> ch_slackChannelId r = k)"
  shows "store (setSlackConnectorPermissions sv d cid (es1 @ (k, p) # es2)) =
           store (setSlackConnectorPermissions sv d cid (es1 @ es2))"
    and "isl (result (setSlackConnectorPermissions sv d cid (es1 @ (k, p) # es2))) =
           isl (result (setSlackConnectorPermissions sv d cid (es1 @ es2)))"
    and "LogChannelNotFound cid k \<in> set (trace (setSlackConnectorPermissions sv d cid (es1 @ (k, p) # es2)))"
proof -
  let ?with = "es1 @ (k, p) # es2" and ?without = "es1 @ es2"
  have rows: "findChannels d cid ?with = findChannels d cid ?without"
    unfolding findChannels_def using norow by (intro filter_cong) auto
  then have chs: "channelsOf d cid ?with = channelsOf d cid ?without"
    by (simp add: channelsOf_def)
  let ?chs = "channelsOf d cid ?without"
  have none: "?chs k = None"
  proof (cases "?chs k")
    case (Some r)
    from channelsOf_Some [OF Some] norow show ?thesis by blast
  qed simp
  with member have look: "lookupChannel ?chs k = Undefined"
    by (simp add: lookupChannel_def)
  have row: "entryRow ?chs (k, p) = (\<lambda>r. r)"
    using none by (simp add: entryRow_None)
  have rej: "entryRejection sv cid ?chs (k, p) = None"
    using look by (simp add: entryRejection_def)
  have loss: "\<not> losesRead ?chs (k, p)"
    using none by (simp add: losesRead_def)
  have ev: "entryEvents sv cid ?chs (k, p) = [LogChannelNotFound cid k]"
    using look by (simp add: entryEvents_def)
  have rejs: "rejectionsOf sv cid ?chs ?with = rejectionsOf sv cid ?chs ?without"
    using rej by (simp add: rejectionsOf_def entryRejections_def)
  have skip: "\<And>Q. rowAfter ?chs (filter Q ?with) = rowAfter ?chs (filter Q ?without)"
    by (rule ext) (simp add: rowAfter_append row)
  have after: "rowAfter ?chs (writesAtReturn sv cid ?chs ?with) =
                 rowAfter ?chs (writesAtReturn sv cid ?chs ?without)"
  proof (cases "rejectionsOf sv cid ?chs ?without")
    case Nil
    have "rowAfter ?chs ?with = rowAfter ?chs ?without"
      by (rule ext) (simp add: rowAfter_append row)
    with Nil rejs show ?thesis by (simp add: writesAtReturn_def)
  next
    case (Cons r rs)
    let ?Q = "\<lambda>entry. fst entry = fst ((r # rs) ! (rejectsFirst sv mod length (r # rs))) \<or>
                       landedAtReturn sv (fst entry)"
    have "writesAtReturn sv cid ?chs ?with = filter ?Q ?with"
      using Cons rejs by (simp only: writesAtReturn_def list.case)
    moreover have "writesAtReturn sv cid ?chs ?without = filter ?Q ?without"
      using Cons by (simp only: writesAtReturn_def list.case)
    ultimately show ?thesis by (simp only: skip)
  qed
  have ok: "tasksSucceed sv cid ?chs ?with = tasksSucceed sv cid ?chs ?without"
    using rej by (auto simp: tasksSucceed_def)
  have gc: "(\<exists>e \<in> set ?with. losesRead ?chs e) = (\<exists>e \<in> set ?without. losesRead ?chs e)"
    using loss by auto
  note w = set_found [OF c f, of sv ?with, unfolded chs]
  note wo = set_found [OF c f, of sv ?without]
  show "store (setSlackConnectorPermissions sv d cid ?with) =
          store (setSlackConnectorPermissions sv d cid ?without)"
    by (simp only: w(1) wo(1) after)
  show "isl (result (setSlackConnectorPermissions sv d cid ?with)) =
          isl (result (setSlackConnectorPermissions sv d cid ?without))"
    by (simp only: w(3) wo(3) ok gc)
  show "LogChannelNotFound cid k \<in> set (trace (setSlackConnectorPermissions sv d cid ?with))"
    by (simp add: w(2) ev)
qed

text \<open>
  Claim C7 says that an id with no matching channel row is skipped with a logged line and
  that the call returns Ok when the rest succeeds. On the concrete store, for the batch
  whose only id is \<open>constructor\<close>: no row is found, yet \<^verbatim>\<open>channels[id]\<close> is the
  inherited \<^verbatim>\<open>Object.prototype.constructor\<close>, so the entry is not skipped; its task
  throws, the call returns the type error and nothing is logged.
\<close>

theorem setSlackConnectorPermissions_inherited_key:
  "findChannels exampleDb 1 [(''constructor'', PRead)] = [] \<and>
   result (setSlackConnectorPermissions exampleServices exampleDb 1 [(''constructor'', PRead)]) =
     Inl (TypeError ''channel.update is not a function'') \<and>
   trace (setSlackConnectorPermissions exampleServices exampleDb 1 [(''constructor'', PRead)]) =
     [DbRead ConnectorT NoTransaction, DbRead SlackConfigurationT NoTransaction,
      DbRead SlackChannelT NoTransaction]"
  by (simp add: setSlackConnectorPermissions_def finishBatch_def startBatch_def
        processEntry_def reject_def lookupChannel_def objectPrototypeMembers_def
        channelsOf_def findChannels_def findConnector_def
        findConfiguration_def exampleDb_def mkConnector_def mkChannel_def)

subsection \<open>The bot-enabled flag\<close>

lemma find_saveBotEnabled:
  "find (\<lambda>r. sc_connectorId r = c) rows = Some x \<Longrightarrow>
   find (\<lambda>r. sc_connectorId r = c) (saveBotEnabled (sc_id x) b rows) = Some (x\<lparr>sc_botEnabled := b\<rparr>)"
  by (induction rows) (auto simp: saveBotEnabled_def)

text \<open>
  Claim C10. When the connector has a SlackConfiguration row, \<open>toggleSlackbot\<close> with the
  flag \<open>b\<close> returns Ok and \<open>getBotEnabled\<close> on the resulting store returns Ok of \<open>b\<close>.
  When the connector has no SlackConfiguration row, both operations return an error and
  leave the store as it was.
\<close>

theorem toggleSlackbot_getBotEnabled_roundtrip:
  "(findConfiguration d connectorId \<noteq> None \<longrightarrow>
      result (toggleSlackbot d connectorId b) = Inr () \<and>
      result (getBotEnabled (store (toggleSlackbot d connectorId b)) connectorId) = Inr b) \<and>
   (findConfiguration d connectorId = None \<longrightarrow>
      isl (result (toggleSlackbot d connectorId b)) \<and>
      store (toggleSlackbot d connectorId b) = d \<and>
      isl (result (getBotEnabled d connectorId)) \<and>
      store (getBotEnabled d connectorId) = d)"
proof (cases "findConfiguration d connectorId")
  case None
  then show ?thesis by (simp add: toggleSlackbot_def getBotEnabled_def)
next
  case (Some x)
  then have "findConfiguration (store (toggleSlackbot d connectorId b)) connectorId
               = Some (x\<lparr>sc_botEnabled := b\<rparr>)"
    by (simp add: toggleSlackbot_def findConfiguration_def find_saveBotEnabled)
  with Some show ?thesis by (simp add: toggleSlackbot_def getBotEnabled_def)
qed

theorem toggleSlackbot_getBotEnabled_roundtrip_witness:
  "findConfiguration exampleDb 1 \<noteq> None \<and>
   result (toggleSlackbot exampleDb 1 True) = Inr () \<and>
   result (getBotEnabled (store (toggleSlackbot exampleDb 1 True)) 1) = Inr True \<and>
   findConfiguration exampleDb 7 = None \<and>
   isl (result (toggleSlackbot exampleDb 7 True)) \<and>
   store (toggleSlackbot exampleDb 7 True) = exampleDb \<and>
   isl (result (getBotEnabled exampleDb 7)) \<and>
   store (getBotEnabled exampleDb 7) = exampleDb"
proof -
  have h1: "findConfiguration exampleDb 1 \<noteq> None"
    by (simp add: findConfiguration_def exampleDb_def)
  have h7: "findConfiguration exampleDb 7 = None"
    by (simp add: findConfiguration_def exampleDb_def)
  from h1 h7 toggleSlackbot_getBotEnabled_roundtrip [of exampleDb 1 True]
    toggleSlackbot_getBotEnabled_roundtrip [of exampleDb 7 True]
  show ?thesis by blast
qed

end
